theory Spec2Isabelle
  imports Main "HOL-Library.Sublist" "HOL-Library.Word"
begin

unbundle bit_operations_syntax

section \<open>Python values\<close>

text \<open>
  A Python 3 \<^verbatim>\<open>str\<close> is a sequence of Unicode code points, so a string is a list of
  natural numbers here: \<^verbatim>\<open>strip\<close> looks at code points, and the pages carry symbols
  beyond ASCII. \<open>u\<close> turns an ASCII literal into such a string.
\<close>

type_synonym pystr = "nat list"

definition u :: "string \<Rightarrow> pystr" where
  "u s = map of_char s"

text \<open>The exceptions that the handlers of \<^verbatim>\<open>app.py\<close> can meet.\<close>

datatype exn =
    AttributeError
  | ValueError
  | BadRequest
  | UnsupportedMediaType
  | TemplateSyntaxError
  | DataOverflowError
  | SMTPException
  | ServiceUnavailable
  | NotFound

text \<open>
  \<^verbatim>\<open>str.isspace\<close> on one code point: the characters Python treats as whitespace,
  which are the ones \<^verbatim>\<open>str.strip()\<close> removes from both ends.
\<close>

definition isspace :: "nat \<Rightarrow> bool" where
  "isspace c = (c \<in> set ([9, 10, 11, 12, 13, 28, 29, 30, 31, 32, 0x85, 0xA0, 0x1680]
      @ [0x2000 ..< 0x200B] @ [0x2028, 0x2029, 0x202F, 0x205F, 0x3000]))"

definition strip :: "pystr \<Rightarrow> pystr" where
  "strip s = rev (dropWhile isspace (rev (dropWhile isspace s)))"

text \<open>
  The value \<^verbatim>\<open>request.get_json()\<close> returns: parsed JSON. An object is a \<^verbatim>\<open>dict\<close>,
  given by its items, each key once.
\<close>

datatype json =
    JNull
  | JBool bool
  | JNum int
  | JStr pystr
  | JArr "json list"
  | JObj "(pystr \<times> json) list"

text \<open>\<^verbatim>\<open>data.get(key, default)\<close>: only a \<^verbatim>\<open>dict\<close> has the method.\<close>

fun data_get :: "json \<Rightarrow> pystr \<Rightarrow> json \<Rightarrow> exn + json" where
  "data_get (JObj kvs) k d = Inr (case map_of kvs k of None \<Rightarrow> d | Some v \<Rightarrow> v)"
| "data_get _ k d = Inl AttributeError"

text \<open>\<^verbatim>\<open>value.strip()\<close>: only a \<^verbatim>\<open>str\<close> has the method.\<close>

fun strip_of :: "json \<Rightarrow> exn + pystr" where
  "strip_of (JStr s) = Inr (strip s)"
| "strip_of _ = Inl AttributeError"

text \<open>\<^verbatim>\<open>os.getenv\<close>: the process environment maps a variable name to its value.\<close>

type_synonym env = "string \<Rightarrow> pystr option"

definition getenv :: "env \<Rightarrow> string \<Rightarrow> pystr \<Rightarrow> pystr" where
  "getenv e k d = (case e k of None \<Rightarrow> d | Some v \<Rightarrow> v)"

section \<open>Dates and times\<close>

text \<open>
  A naive \<^verbatim>\<open>datetime\<close> object, as \<^verbatim>\<open>datetime.now()\<close> returns it. Python keeps
  the fields within the ranges of \<open>valid_datetime\<close> and compares two objects field by
  field, from the year down.
\<close>

record datetime =
  year :: nat
  month :: nat
  day :: nat
  hour :: nat
  minute :: nat
  second :: nat
  microsecond :: nat

definition is_leap :: "nat \<Rightarrow> bool" where
  "is_leap y = (y mod 4 = 0 \<and> (y mod 100 \<noteq> 0 \<or> y mod 400 = 0))"

definition days_in_month :: "nat \<Rightarrow> nat \<Rightarrow> nat" where
  "days_in_month y m =
     (if m = 2 then (if is_leap y then 29 else 28)
      else if m = 4 \<or> m = 6 \<or> m = 9 \<or> m = 11 then 30 else 31)"

definition valid_datetime :: "datetime \<Rightarrow> bool" where
  "valid_datetime d =
     (1 \<le> year d \<and> year d \<le> 9999 \<and> 1 \<le> month d \<and> month d \<le> 12 \<and>
      1 \<le> day d \<and> day d \<le> days_in_month (year d) (month d) \<and>
      hour d < 24 \<and> minute d < 60 \<and> second d < 60 \<and> microsecond d < 1000000)"

definition dt_fields :: "datetime \<Rightarrow> nat list" where
  "dt_fields d = [year d, month d, day d, hour d, minute d, second d, microsecond d]"

definition dt_le :: "datetime \<Rightarrow> datetime \<Rightarrow> bool" where
  "dt_le a b = (\<not> lexordp (<) (dt_fields b) (dt_fields a))"

text \<open>\<^verbatim>\<open>'%d' % n\<close> and the zero padding of \<^verbatim>\<open>'%0wd'\<close>.\<close>

fun decimal :: "nat \<Rightarrow> pystr" where
  "decimal n = (if n < 10 then [48 + n] else decimal (n div 10) @ [48 + n mod 10])"

declare decimal.simps [simp del]

definition zero_pad :: "nat \<Rightarrow> pystr \<Rightarrow> pystr" where
  "zero_pad w s = replicate (w - length s) 48 @ s"

text \<open>
  \<^verbatim>\<open>d.strftime('%Y-%m-%d %H:%M:%S')\<close>. The year is written with four digits, which
  is what every platform prints for the years from 1000 on that a running clock reports.
\<close>

definition strftime_ymd_hms :: "datetime \<Rightarrow> pystr" where
  "strftime_ymd_hms d =
     zero_pad 4 (decimal (year d)) @ u ''-'' @ zero_pad 2 (decimal (month d)) @ u ''-'' @
     zero_pad 2 (decimal (day d)) @ u '' '' @ zero_pad 2 (decimal (hour d)) @ u '':'' @
     zero_pad 2 (decimal (minute d)) @ u '':'' @ zero_pad 2 (decimal (second d))"

text \<open>\<^verbatim>\<open>d.isoformat()\<close>: the microseconds are printed only when they are not zero.\<close>

definition isoformat :: "datetime \<Rightarrow> pystr" where
  "isoformat d =
     zero_pad 4 (decimal (year d)) @ u ''-'' @ zero_pad 2 (decimal (month d)) @ u ''-'' @
     zero_pad 2 (decimal (day d)) @ u ''T'' @ zero_pad 2 (decimal (hour d)) @ u '':'' @
     zero_pad 2 (decimal (minute d)) @ u '':'' @ zero_pad 2 (decimal (second d)) @
     (if microsecond d = 0 then [] else u ''.'' @ zero_pad 6 (decimal (microsecond d)))"

text \<open>
  Shapes of strings: a pattern is a list of character classes, and a string matches it
  when it has the pattern's length and each character is in its class.
\<close>

datatype cclass = Digit | Hex | Lit nat | OneOf "nat list"

fun in_class :: "cclass \<Rightarrow> nat \<Rightarrow> bool" where
  "in_class Digit c = (48 \<le> c \<and> c \<le> 57)"
| "in_class Hex c = ((48 \<le> c \<and> c \<le> 57) \<or> (97 \<le> c \<and> c \<le> 102))"
| "in_class (Lit l) c = (c = l)"
| "in_class (OneOf ls) c = (c \<in> set ls)"

fun matches :: "cclass list \<Rightarrow> pystr \<Rightarrow> bool" where
  "matches [] [] = True"
| "matches (p # ps) (c # cs) = (in_class p c \<and> matches ps cs)"
| "matches _ _ = False"

text \<open>ISO 8601, extended format: \<^verbatim>\<open>YYYY-MM-DDTHH:MM:SS\<close>, with an optional fraction of six digits.\<close>

definition iso8601_seconds :: "cclass list" where
  "iso8601_seconds =
     [Digit, Digit, Digit, Digit, Lit 45, Digit, Digit, Lit 45, Digit, Digit, Lit 84,
      Digit, Digit, Lit 58, Digit, Digit, Lit 58, Digit, Digit]"

definition iso8601 :: "pystr \<Rightarrow> bool" where
  "iso8601 s = (matches iso8601_seconds s \<or>
     matches (iso8601_seconds @ Lit 46 # replicate 6 Digit) s)"

section \<open>The ticket store\<close>

text \<open>
  The Firestore collection \<^verbatim>\<open>tickets\<close>: a document per ticket id, a document being a
  dictionary of fields. \<open>online\<close> says whether a call reaches the database; a call that
  does not raises. The handle \<^verbatim>\<open>db\<close> of \<^verbatim>\<open>app.py\<close> is a \<open>firestore option\<close>,
  \<open>None\<close> when the initialisation failed.
\<close>

datatype fvalue = FStr pystr | FBool bool | FTime datetime | FNone

type_synonym document = "string \<Rightarrow> fvalue option"

record firestore =
  tickets :: "pystr \<Rightarrow> document option"
  online :: bool

text \<open>\<^verbatim>\<open>db.collection('tickets').document(id).get()\<close>; \<open>None\<close> is a snapshot that does not exist.\<close>

definition document_get :: "firestore \<Rightarrow> pystr \<Rightarrow> exn + document option" where
  "document_get fs tid = (if online fs then Inr (tickets fs tid) else Inl ServiceUnavailable)"

text \<open>\<^verbatim>\<open>document(id).set(data)\<close> writes the whole document, replacing one that exists.\<close>

definition document_set :: "firestore \<Rightarrow> pystr \<Rightarrow> (string \<times> fvalue) list \<Rightarrow> exn + firestore" where
  "document_set fs tid kvs =
     (if online fs then Inr (fs\<lparr>tickets := (tickets fs)(tid \<mapsto> map_of kvs)\<rparr>)
      else Inl ServiceUnavailable)"

text \<open>\<^verbatim>\<open>document(id).update(fields)\<close> writes the given fields of a document that exists.\<close>

definition document_update :: "firestore \<Rightarrow> pystr \<Rightarrow> (string \<times> fvalue) list \<Rightarrow> exn + firestore" where
  "document_update fs tid kvs =
     (if \<not> online fs then Inl ServiceUnavailable
      else case tickets fs tid of
             None \<Rightarrow> Inl NotFound
           | Some doc \<Rightarrow> Inr (fs\<lparr>tickets := (tickets fs)(tid \<mapsto> doc ++ map_of kvs)\<rparr>))"

text \<open>\<^verbatim>\<open>ticket_data.get(field, default)\<close> on the dictionary of a snapshot.\<close>

definition field_get :: "document \<Rightarrow> string \<Rightarrow> fvalue \<Rightarrow> fvalue" where
  "field_get doc k d = (case doc k of None \<Rightarrow> d | Some v \<Rightarrow> v)"

text \<open>The truth value of a field in an \<^verbatim>\<open>if\<close>.\<close>

fun truthy :: "fvalue \<Rightarrow> bool" where
  "truthy (FStr s) = (s \<noteq> [])"
| "truthy (FBool b) = b"
| "truthy (FTime t) = True"
| "truthy FNone = False"

section \<open>Libraries\<close>

text \<open>
  What the handlers call outside the repository is a parameter of the model: the Jinja
  engine behind \<^verbatim>\<open>render_template_string\<close>, the \<^verbatim>\<open>qrcode\<close> package (the making of
  a symbol and its drawing), the image encoder behind \<^verbatim>\<open>save\<close>, the construction and
  SMTP delivery of a message, \<^verbatim>\<open>int\<close> on a string, and the text of a timestamp read
  back from the store.
\<close>

datatype ec_level = ERROR_CORRECT_L | ERROR_CORRECT_M | ERROR_CORRECT_Q | ERROR_CORRECT_H

type_synonym bytes = "8 word list"

text \<open>
  A \<^verbatim>\<open>QRCode\<close> object: the settings given to the constructor and the data added so far.
\<close>

record qr_code =
  qr_version :: nat
  qr_error_correction :: ec_level
  qr_box_size :: nat
  qr_border :: nat
  qr_data_list :: "pystr list"

text \<open>An image, as rows of pixels.\<close>

datatype image = Image "nat list list"

record email_message =
  msg_from :: pystr
  msg_to :: pystr
  msg_subject :: pystr
  msg_html :: pystr
  attachment_disposition :: pystr
  attachment_payload :: bytes

record smtp_session =
  smtp_host :: pystr
  smtp_port :: int
  smtp_user :: pystr
  smtp_password :: pystr
  smtp_message :: email_message

record lib =
  jinja :: "pystr \<Rightarrow> exn + pystr"
  qr_make :: "qr_code \<Rightarrow> bool \<Rightarrow> exn + qr_code"
  qr_make_image :: "qr_code \<Rightarrow> pystr \<Rightarrow> pystr \<Rightarrow> exn + image"
  image_encode :: "image \<Rightarrow> pystr \<Rightarrow> exn + bytes"
  smtp :: "smtp_session \<Rightarrow> exn option"
  int_of_str :: "pystr \<Rightarrow> exn + int"
  str_timestamp :: "datetime \<Rightarrow> pystr"

text \<open>\<^verbatim>\<open>str(value)\<close>, as an f-string formats a field of a document.\<close>

fun py_str :: "lib \<Rightarrow> fvalue \<Rightarrow> pystr" where
  "py_str l (FStr s) = s"
| "py_str l (FBool b) = (if b then u ''True'' else u ''False'')"
| "py_str l (FTime t) = str_timestamp l t"
| "py_str l FNone = u ''None''"

subsection \<open>Template rendering\<close>

text \<open>
  \<^verbatim>\<open>render_template_string(source)\<close> compiles its argument as a Jinja template. The
  lexer looks for the first opening delimiter, \<^verbatim>\<open>{{\<close>, \<^verbatim>\<open>{%\<close> or \<^verbatim>\<open>{#\<close>. A
  source with none of them is plain data and is returned as it is, provided it has no
  carriage return and no final line feed (the lexer rewrites the former and drops the
  latter). A source whose first delimiter opens a comment that is never closed is
  rejected with a syntax error. Every other source is left to the engine.
\<close>

fun first_delimiter :: "pystr \<Rightarrow> (nat \<times> pystr) option" where
  "first_delimiter (a # b # cs) =
     (if a = 123 \<and> (b = 123 \<or> b = 37 \<or> b = 35) then Some (b, cs)
      else first_delimiter (b # cs))"
| "first_delimiter _ = None"

definition jinja_plain :: "pystr \<Rightarrow> bool" where
  "jinja_plain src =
     (first_delimiter src = None \<and> 13 \<notin> set src \<and> (src = [] \<or> last src \<noteq> 10))"

definition unclosed_comment :: "pystr \<Rightarrow> bool" where
  "unclosed_comment src =
     (case first_delimiter src of
        None \<Rightarrow> False
      | Some (b, rest) \<Rightarrow> b = 35 \<and> \<not> sublist [35, 125] rest)"

definition render_template_string :: "lib \<Rightarrow> pystr \<Rightarrow> exn + pystr" where
  "render_template_string l src =
     (if jinja_plain src then Inr src
      else if unclosed_comment src then Inl TemplateSyntaxError
      else jinja l src)"

text \<open>Text with no brace and no carriage return: it cannot open a delimiter.\<close>

definition template_free :: "pystr \<Rightarrow> bool" where
  "template_free s = (123 \<notin> set s \<and> 13 \<notin> set s)"

section \<open>The pages of \<^verbatim>\<open>validate_ticket\<close> and the body of the email\<close>

text \<open>
  The string literals of \<^verbatim>\<open>app.py\<close>, character by character. An f-string is cut at
  its placeholders: the pieces are constants and the page is their concatenation with the
  formatted values.
\<close>

definition database_error_page :: pystr where
  \<open>database_error_page =
     [10] @
     u ''            <div style="text-align: center; padding: 50px; font-family: Arial;">'' @
     [10] @
     u ''                <h2 style="color: red;">'' @
     [10060] @
     u '' Database Error</h2>'' @
     [10] @
     u ''                <p>Unable to connect to database</p>'' @
     [10] @
     u ''            </div>'' @
     [10] @
     u ''            ''\<close>

definition invalid_ticket_page :: pystr where
  \<open>invalid_ticket_page =
     [10] @
     u ''            <div style="text-align: center; padding: 50px; font-family: Arial;">'' @
     [10] @
     u ''                <h2 style="color: red;">'' @
     [10060] @
     u '' Invalid Ticket</h2>'' @
     [10] @
     u ''                <p>This ticket does not exist</p>'' @
     [10] @
     u ''            </div>'' @
     [10] @
     u ''            ''\<close>

definition already_used_page_0 :: pystr where
  \<open>already_used_page_0 =
     [10] @
     u ''            <div style="text-align: center; padding: 50px; font-family: Arial;">'' @
     [10] @
     u ''                <h2 style="color: orange;">'' @
     [9888, 65039] @
     u '' Already Used</h2>'' @
     [10] @
     u ''                <p>This ticket has already been scanned</p>'' @
     [10] @
     u ''                <div style="margin-top: 30px; padding: 20px; background: #f8f9fa; border-radius: 10px;">'' @
     [10] @
     u ''                    <h3>Ticket Details:</h3>'' @
     [10] @
     u ''                    <p><strong>Name:</strong> ''\<close>

definition already_used_page_1 :: pystr where
  \<open>already_used_page_1 =
     u ''</p>'' @
     [10] @
     u ''                    <p><strong>Email:</strong> ''\<close>

definition already_used_page_2 :: pystr where
  \<open>already_used_page_2 =
     u ''</p>'' @
     [10] @
     u ''                    <p><strong>Originally scanned:</strong> ''\<close>

definition already_used_page_3 :: pystr where
  \<open>already_used_page_3 =
     u ''</p>'' @
     [10] @
     u ''                </div>'' @
     [10] @
     u ''            </div>'' @
     [10] @
     u ''            ''\<close>

definition already_used_page :: "pystr \<Rightarrow> pystr \<Rightarrow> pystr \<Rightarrow> pystr" where
  "already_used_page name email scanned_at =
     already_used_page_0 @ name @ already_used_page_1 @ email @ already_used_page_2 @ scanned_at @ already_used_page_3"

definition valid_ticket_page_0 :: pystr where
  \<open>valid_ticket_page_0 =
     [10] @
     u ''        <div style="text-align: center; padding: 50px; font-family: Arial;">'' @
     [10] @
     u ''            <h1 style="color: green;">'' @
     [9989] @
     u '' Valid Ticket!</h1>'' @
     [10] @
     u ''            <h2 style="color: #333; margin-top: 30px;">Welcome to ESYA Fest!</h2>'' @
     [10] @
     u ''            '' @
     [10] @
     u ''            <div style="margin: 30px auto; padding: 30px; background: linear-gradient(135deg, #667eea, #764ba2); color: white; border-radius: 15px; max-width: 400px;">'' @
     [10] @
     u ''                <h3 style="margin-bottom: 20px;">'' @
     [127915] @
     u '' Ticket Validated</h3>'' @
     [10] @
     u ''                <p><strong>Name:</strong> ''\<close>

definition valid_ticket_page_1 :: pystr where
  \<open>valid_ticket_page_1 =
     u ''</p>'' @
     [10] @
     u ''                <p><strong>Email:</strong> ''\<close>

definition valid_ticket_page_2 :: pystr where
  \<open>valid_ticket_page_2 =
     u ''</p>'' @
     [10] @
     u ''                <p><strong>Entry Time:</strong> ''\<close>

definition valid_ticket_page_3 :: pystr where
  \<open>valid_ticket_page_3 =
     u ''</p>'' @
     [10] @
     u ''            </div>'' @
     [10] @
     u ''            '' @
     [10] @
     u ''            <div style="margin-top: 40px; padding: 20px; background: #d4edda; border-radius: 10px; border: 1px solid #c3e6cb;">'' @
     [10] @
     u ''                <p style="color: #155724; font-size: 18px; font-weight: bold;">'' @
     [10] @
     u ''                    '' @
     [127881] @
     u '' Enjoy the fest! '' @
     [127881, 10] @
     u ''                </p>'' @
     [10] @
     u ''            </div>'' @
     [10] @
     u ''        </div>'' @
     [10] @
     u ''        ''\<close>

definition valid_ticket_page :: "pystr \<Rightarrow> pystr \<Rightarrow> pystr \<Rightarrow> pystr" where
  "valid_ticket_page name email entry_time =
     valid_ticket_page_0 @ name @ valid_ticket_page_1 @ email @ valid_ticket_page_2 @ entry_time @ valid_ticket_page_3"

definition validation_error_page :: pystr where
  \<open>validation_error_page =
     [10] @
     u ''        <div style="text-align: center; padding: 50px; font-family: Arial;">'' @
     [10] @
     u ''            <h2 style="color: red;">'' @
     [10060] @
     u '' Validation Error</h2>'' @
     [10] @
     u ''            <p>Unable to validate ticket</p>'' @
     [10] @
     u ''        </div>'' @
     [10] @
     u ''        ''\<close>

definition email_body_0 :: pystr where
  \<open>email_body_0 =
     [10] @
     u ''        <html>'' @
     [10] @
     u ''        <body style="font-family: Arial, sans-serif; max-width: 600px; margin: 0 auto;">'' @
     [10] @
     u ''            <div style="background: linear-gradient(135deg, #667eea 0%, #764ba2 100%); color: white; padding: 30px; text-align: center;">'' @
     [10] @
     u ''                <h1 style="margin: 0; font-size: 28px;">'' @
     [127882] @
     u '' ESYA FEST 2025 '' @
     [127882] @
     u ''</h1>'' @
     [10] @
     u ''                <p style="margin: 10px 0 0 0; font-size: 16px;">Your Digital Ticket</p>'' @
     [10] @
     u ''            </div>'' @
     [10] @
     u ''            '' @
     [10] @
     u ''            <div style="padding: 30px; background: #f8f9fa;">'' @
     [10] @
     u ''                <h2 style="color: #333; margin-bottom: 20px;">Hello ''\<close>

definition email_body_1 :: pystr where
  \<open>email_body_1 =
     u ''! '' @
     [128075] @
     u ''</h2>'' @
     [10] @
     u ''                '' @
     [10] @
     u ''                <p style="color: #555; font-size: 16px; line-height: 1.6;">'' @
     [10] @
     u ''                    Congratulations! Your registration for ESYA Fest has been confirmed. '' @
     [10] @
     u ''                    Your unique ticket is attached as a QR code.'' @
     [10] @
     u ''                </p>'' @
     [10] @
     u ''                '' @
     [10] @
     u ''                <div style="background: white; padding: 20px; border-radius: 10px; margin: 20px 0; border-left: 4px solid #667eea;">'' @
     [10] @
     u ''                    <h3 style="color: #333; margin-top: 0;">'' @
     [128203] @
     u '' Ticket Details</h3>'' @
     [10] @
     u ''                    <p><strong>Name:</strong> ''\<close>

definition email_body_2 :: pystr where
  \<open>email_body_2 =
     u ''</p>'' @
     [10] @
     u ''                    <p><strong>Email:</strong> ''\<close>

definition email_body_3 :: pystr where
  \<open>email_body_3 =
     u ''</p>'' @
     [10] @
     u ''                    <p><strong>Ticket ID:</strong> ''\<close>

definition email_body_4 :: pystr where
  \<open>email_body_4 =
     u ''</p>'' @
     [10] @
     u ''                    <p><strong>Status:</strong> '' @
     [9989] @
     u '' Active</p>'' @
     [10] @
     u ''                </div>'' @
     [10] @
     u ''                '' @
     [10] @
     u ''                <div style="background: #e3f2fd; padding: 20px; border-radius: 10px; margin: 20px 0;">'' @
     [10] @
     u ''                    <h3 style="color: #1976d2; margin-top: 0;">'' @
     [128241] @
     u '' How to Use Your Ticket</h3>'' @
     [10] @
     u ''                    <ol style="color: #555; line-height: 1.8;">'' @
     [10] @
     u ''                        <li>Save the QR code image to your phone</li>'' @
     [10] @
     u ''                        <li>Present the QR code at the fest entrance</li>'' @
     [10] @
     u ''                        <li>Our scanner will validate your entry</li>'' @
     [10] @
     u ''                        <li>Enjoy the fest! '' @
     [127881] @
     u ''</li>'' @
     [10] @
     u ''                    </ol>'' @
     [10] @
     u ''                </div>'' @
     [10] @
     u ''                '' @
     [10] @
     u ''                <div style="background: #fff3e0; padding: 15px; border-radius: 8px; margin: 20px 0;">'' @
     [10] @
     u ''                    <p style="color: #f57c00; margin: 0; font-weight: bold;">'' @
     [10] @
     u ''                        '' @
     [9888, 65039] @
     u '' Important: This ticket can only be used once. Keep it safe!'' @
     [10] @
     u ''                    </p>'' @
     [10] @
     u ''                </div>'' @
     [10] @
     u ''                '' @
     [10] @
     u ''                <p style="color: #555; font-size: 14px; margin-top: 30px;">'' @
     [10] @
     u ''                    See you at ESYA Fest! '' @
     [128640] @
     u ''<br>'' @
     [10] @
     u ''                    - The ESYA Team'' @
     [10] @
     u ''                </p>'' @
     [10] @
     u ''            </div>'' @
     [10] @
     u ''            '' @
     [10] @
     u ''            <div style="background: #333; color: white; padding: 20px; text-align: center; font-size: 12px;">'' @
     [10] @
     u ''                <p>ESYA Fest 2025 | Powered by QR Ticketing System</p>'' @
     [10] @
     u ''            </div>'' @
     [10] @
     u ''        </body>'' @
     [10] @
     u ''        </html>'' @
     [10] @
     u ''        ''\<close>

definition email_body :: "pystr \<Rightarrow> pystr \<Rightarrow> pystr \<Rightarrow> pystr" where
  "email_body name email ticket_id =
     email_body_0 @ name @ email_body_1 @ name @ email_body_2 @ email @ email_body_3 @ ticket_id @ email_body_4"

section \<open>HTTP responses\<close>

datatype body = Html pystr | Json json

record response =
  status :: nat
  body :: body

text \<open>\<^verbatim>\<open>return render_template_string(source), code\<close>: the rendering may raise.\<close>

definition respond :: "lib \<Rightarrow> pystr \<Rightarrow> nat \<Rightarrow> exn + response" where
  "respond l src code =
     (case render_template_string l src of
        Inl e \<Rightarrow> Inl e
      | Inr page \<Rightarrow> Inr \<lparr>status = code, body = Html page\<rparr>)"

text \<open>\<^verbatim>\<open>return jsonify(obj), code\<close>.\<close>

definition jsonify :: "(pystr \<times> json) list \<Rightarrow> nat \<Rightarrow> response" where
  "jsonify obj code = \<lparr>status = code, body = Json (JObj obj)\<rparr>"

section \<open>\<^verbatim>\<open>GET /validate/<ticket_id>\<close>\<close>

text \<open>
  The \<^verbatim>\<open>try\<close> block of \<^verbatim>\<open>validate_ticket\<close>. \<open>now1\<close> and \<open>now2\<close> are the readings of
  \<^verbatim>\<open>datetime.now()\<close>, the first written to the store and the second printed on the
  page. The result is the response, or the exception raised, and the store handle as the
  block leaves it.
\<close>

definition validate_ticket_try ::
  "lib \<Rightarrow> firestore option \<Rightarrow> pystr \<Rightarrow> datetime \<Rightarrow> datetime
     \<Rightarrow> (exn + response) \<times> firestore option" where
  "validate_ticket_try l db ticket_id now1 now2 =
     (case db of
        None \<Rightarrow> (respond l database_error_page 500, db)
      | Some fs \<Rightarrow>
          (case document_get fs ticket_id of
             Inl e \<Rightarrow> (Inl e, db)
           | Inr None \<Rightarrow> (respond l invalid_ticket_page 404, db)
           | Inr (Some ticket_data) \<Rightarrow>
               if truthy (field_get ticket_data ''scanned'' (FBool False))
               then (respond l
                       (already_used_page
                          (py_str l (field_get ticket_data ''name'' (FStr (u ''N/A''))))
                          (py_str l (field_get ticket_data ''email'' (FStr (u ''N/A''))))
                          (py_str l (field_get ticket_data ''scanned_at'' (FStr (u ''N/A'')))))
                       200, db)
               else
                 (case document_update fs ticket_id
                         [(''scanned'', FBool True), (''scanned_at'', FTime now1)] of
                    Inl e \<Rightarrow> (Inl e, db)
                  | Inr fs' \<Rightarrow>
                      (respond l
                         (valid_ticket_page
                            (py_str l (field_get ticket_data ''name'' (FStr (u ''N/A''))))
                            (py_str l (field_get ticket_data ''email'' (FStr (u ''N/A''))))
                            (strftime_ymd_hms now2))
                         200, Some fs'))))"

text \<open>
  The handler: \<^verbatim>\<open>except Exception\<close> answers with the "Validation Error" page, itself
  rendered as a template. An exception of that rendering would leave the handler.
\<close>

definition validate_ticket ::
  "lib \<Rightarrow> firestore option \<Rightarrow> pystr \<Rightarrow> datetime \<Rightarrow> datetime
     \<Rightarrow> (exn + response) \<times> firestore option" where
  "validate_ticket l db ticket_id now1 now2 =
     (case validate_ticket_try l db ticket_id now1 now2 of
        (Inr r, db') \<Rightarrow> (Inr r, db')
      | (Inl e, db') \<Rightarrow> (respond l validation_error_page 500, db'))"

section \<open>\<^verbatim>\<open>GET /health\<close>\<close>

definition health :: "firestore option \<Rightarrow> datetime \<Rightarrow> response" where
  "health db now =
     jsonify [(u ''status'', JStr (u ''healthy'')),
              (u ''firebase_connected'', JBool (db \<noteq> None)),
              (u ''timestamp'', JStr (isoformat now))] 200"


section \<open>Ticket identifiers\<close>

text \<open>
  \<^verbatim>\<open>uuid.uuid4()\<close> is \<^verbatim>\<open>UUID(bytes=os.urandom(16), version=4)\<close>: the sixteen random
  bytes are read as a 128-bit integer, the variant bits and the version number are
  written into it, and \<^verbatim>\<open>str\<close> prints it as \<^verbatim>\<open>'%032x'\<close>, cut into five groups.
  The random bytes are the argument \<open>r\<close>.
\<close>

definition uuid4 :: "128 word \<Rightarrow> 128 word" where
  "uuid4 r =
     ((((r AND NOT (push_bit 48 0xc000)) OR push_bit 48 0x8000)
        AND NOT (push_bit 64 0xf000)) OR push_bit 76 4)"

definition hex_digit :: "nat \<Rightarrow> nat" where
  "hex_digit n = (if n < 10 then 48 + n else 87 + n)"

definition hex32 :: "128 word \<Rightarrow> pystr" where
  "hex32 w = map (\<lambda>i. hex_digit (unat (take_bit 4 (drop_bit (4 * (31 - i)) w)))) [0..<32]"

definition uuid_str :: "128 word \<Rightarrow> pystr" where
  "uuid_str w =
     (let h = hex32 w
      in take 8 h @ u ''-'' @ take 4 (drop 8 h) @ u ''-'' @ take 4 (drop 12 h) @ u ''-'' @
         take 4 (drop 16 h) @ u ''-'' @ drop 20 h)"

text \<open>
  The shape of a version 4 UUID: \<^verbatim>\<open>xxxxxxxx-xxxx-4xxx-yxxx-xxxxxxxxxxxx\<close>, with
  hexadecimal digits for \<^verbatim>\<open>x\<close> and one of 8, 9, a, b for \<^verbatim>\<open>y\<close>.
\<close>

definition uuid4_shape :: "cclass list" where
  "uuid4_shape =
     replicate 8 Hex @ [Lit 45] @ replicate 4 Hex @ [Lit 45] @ Lit 52 # replicate 3 Hex @
     [Lit 45] @ OneOf [56, 57, 97, 98] # replicate 3 Hex @ [Lit 45] @ replicate 12 Hex"

section \<open>\<^verbatim>\<open>generate_qr_code\<close>\<close>

text \<open>\<^verbatim>\<open>qrcode.QRCode(version, error_correction, box_size, border)\<close> and \<^verbatim>\<open>qr.add_data\<close>.\<close>

definition QRCode :: "nat \<Rightarrow> ec_level \<Rightarrow> nat \<Rightarrow> nat \<Rightarrow> qr_code" where
  "QRCode v ec box bd =
     \<lparr>qr_version = v, qr_error_correction = ec, qr_box_size = box, qr_border = bd,
      qr_data_list = []\<rparr>"

definition add_data :: "qr_code \<Rightarrow> pystr \<Rightarrow> qr_code" where
  "add_data qr d = qr\<lparr>qr_data_list := qr_data_list qr @ [d]\<rparr>"

text \<open>
  \<^verbatim>\<open>io.BytesIO\<close>: a buffer in memory with a position. Writing replaces the bytes
  from the position on, after filling a gap with zeros, and moves the position.
\<close>

record bytes_io =
  content :: bytes
  position :: nat

definition BytesIO :: bytes_io where
  "BytesIO = \<lparr>content = [], position = 0\<rparr>"

definition bytes_io_write :: "bytes_io \<Rightarrow> bytes \<Rightarrow> bytes_io" where
  "bytes_io_write b d =
     (let padded = content b @ replicate (position b - length (content b)) 0
      in \<lparr>content = take (position b) padded @ d @ drop (position b + length d) padded,
          position = position b + length d\<rparr>)"

text \<open>
  The files of the machine, by name, and what \<^verbatim>\<open>image.save(fp, format)\<close> can be given
  as \<^verbatim>\<open>fp\<close>: a buffer, or the name of a file. Saving encodes the image in the format
  and writes the bytes where \<^verbatim>\<open>fp\<close> says: into the buffer, or into the file of that
  name. Only a buffer has \<^verbatim>\<open>seek\<close> and \<^verbatim>\<open>getvalue\<close>.
\<close>

type_synonym filesystem = "pystr \<Rightarrow> bytes option"

datatype fp = Buffer bytes_io | Path pystr

definition image_save ::
  "lib \<Rightarrow> image \<Rightarrow> fp \<Rightarrow> pystr \<Rightarrow> filesystem \<Rightarrow> exn + fp \<times> filesystem" where
  "image_save l img target fmt files =
     (case image_encode l img fmt of
        Inl x \<Rightarrow> Inl x
      | Inr d \<Rightarrow>
          (case target of
             Buffer b \<Rightarrow> Inr (Buffer (bytes_io_write b d), files)
           | Path p \<Rightarrow> Inr (Path p, files(p \<mapsto> d))))"

fun seek :: "fp \<Rightarrow> nat \<Rightarrow> exn + fp" where
  "seek (Buffer b) n = Inr (Buffer (b\<lparr>position := n\<rparr>))"
| "seek (Path p) n = Inl AttributeError"

fun getvalue :: "fp \<Rightarrow> exn + bytes" where
  "getvalue (Buffer b) = Inr (content b)"
| "getvalue (Path p) = Inl AttributeError"

text \<open>The URL of the f-string: the base URL of the environment, or its default.\<close>

definition validation_url :: "env \<Rightarrow> pystr \<Rightarrow> pystr" where
  "validation_url e ticket_id =
     getenv e ''BASE_URL'' (u ''http://localhost:5000'') @ u ''/validate/'' @ ticket_id"

text \<open>
  The function, statement by statement, on the files of the machine: the result is the
  value returned, or the exception raised, and the files afterwards.
\<close>

definition generate_qr_code_fs ::
  "lib \<Rightarrow> env \<Rightarrow> pystr \<Rightarrow> filesystem \<Rightarrow> (exn + bytes) \<times> filesystem" where
  "generate_qr_code_fs l e ticket_id files =
     (let qr = add_data (QRCode 1 ERROR_CORRECT_L 10 4) (validation_url e ticket_id)
      in case qr_make l qr True of
           Inl x \<Rightarrow> (Inl x, files)
         | Inr made \<Rightarrow>
             (case qr_make_image l made (u ''black'') (u ''white'') of
                Inl x \<Rightarrow> (Inl x, files)
              | Inr qr_img \<Rightarrow>
                  (case image_save l qr_img (Buffer BytesIO) (u ''PNG'') files of
                     Inl x \<Rightarrow> (Inl x, files)
                   | Inr (img_buffer, files') \<Rightarrow>
                       (case seek img_buffer 0 of
                          Inl x \<Rightarrow> (Inl x, files')
                        | Inr rewound \<Rightarrow> (getvalue rewound, files')))))"

text \<open>
  The value the function returns to \<^verbatim>\<open>register\<close>. It is the same on every state of
  the files, which the function leaves as they are (\<open>generate_qr_code_fs_value\<close> below).
\<close>

definition generate_qr_code :: "lib \<Rightarrow> env \<Rightarrow> pystr \<Rightarrow> exn + bytes" where
  "generate_qr_code l e ticket_id = fst (generate_qr_code_fs l e ticket_id (\<lambda>name. None))"

text \<open>PNG data starts with the eight bytes of the PNG signature.\<close>

definition png_signature :: bytes where
  "png_signature = [0x89, 0x50, 0x4E, 0x47, 0x0D, 0x0A, 0x1A, 0x0A]"

definition is_png :: "bytes \<Rightarrow> bool" where
  "is_png d = (take 8 d = png_signature)"

section \<open>\<^verbatim>\<open>send_email_with_qr\<close>\<close>

text \<open>
  The \<^verbatim>\<open>try\<close> block: the configuration is read, the credentials are checked, the
  message is built and a single SMTP session sends it.
\<close>

definition send_email_try ::
  "lib \<Rightarrow> env \<Rightarrow> pystr \<Rightarrow> pystr \<Rightarrow> pystr \<Rightarrow> bytes \<Rightarrow> exn + bool" where
  \<open>send_email_try l e name email ticket_id qr_code_data =
     (let smtp_server = getenv e ''SMTP_SERVER'' (u ''smtp.gmail.com'')
      in case int_of_str l (getenv e ''SMTP_PORT'' (u ''587'')) of
           Inl x \<Rightarrow> Inl x
         | Inr port \<Rightarrow>
             (case (e ''SENDER_EMAIL'', e ''SENDER_PASSWORD'') of
                (Some sender_email, Some sender_password) \<Rightarrow>
                  if sender_email = [] \<or> sender_password = [] then Inl ValueError
                  else
                    (case smtp l
                       \<lparr>smtp_host = smtp_server, smtp_port = port, smtp_user = sender_email,
                        smtp_password = sender_password,
                        smtp_message =
                          \<lparr>msg_from = u ''ESYA Fest <'' @ sender_email @ u ''>'',
                           msg_to = email,
                           msg_subject =
                             [127881] @ u '' Your ESYA Fest Ticket - '' @ take 8 ticket_id,
                           msg_html = email_body name email ticket_id,
                           attachment_disposition =
                             u ''attachment; filename="ESYA_Ticket_'' @ take 8 ticket_id @
                             u ''.png"'',
                           attachment_payload = qr_code_data\<rparr>\<rparr> of
                       Some x \<Rightarrow> Inl x
                     | None \<Rightarrow> Inr True)
              | _ \<Rightarrow> Inl ValueError))\<close>

text \<open>\<^verbatim>\<open>except Exception\<close>: every failure is reported as \<^verbatim>\<open>False\<close>.\<close>

definition send_email_with_qr ::
  "lib \<Rightarrow> env \<Rightarrow> pystr \<Rightarrow> pystr \<Rightarrow> pystr \<Rightarrow> bytes \<Rightarrow> bool" where
  "send_email_with_qr l e name email ticket_id qr_code_data =
     (case send_email_try l e name email ticket_id qr_code_data of
        Inl x \<Rightarrow> False
      | Inr sent \<Rightarrow> sent)"

section \<open>\<^verbatim>\<open>POST /register\<close>\<close>

definition ticket_data :: "pystr \<Rightarrow> pystr \<Rightarrow> pystr \<Rightarrow> datetime \<Rightarrow> (string \<times> fvalue) list" where
  "ticket_data ticket_id name email now =
     [(''ticket_id'', FStr ticket_id), (''name'', FStr name), (''email'', FStr email),
      (''scanned'', FBool False), (''created_at'', FTime now), (''scanned_at'', FNone)]"

text \<open>\<^verbatim>\<open>if db: db.collection('tickets').document(ticket_id).set(ticket_data)\<close>.\<close>

definition store_ticket ::
  "firestore option \<Rightarrow> pystr \<Rightarrow> (string \<times> fvalue) list \<Rightarrow> exn + firestore option" where
  "store_ticket db ticket_id kvs =
     (case db of
        None \<Rightarrow> Inr None
      | Some fs \<Rightarrow>
          (case document_set fs ticket_id kvs of Inl x \<Rightarrow> Inl x | Inr fs' \<Rightarrow> Inr (Some fs')))"

text \<open>\<^verbatim>\<open>data.get(key, '').strip()\<close>, as the handler reads a field of the body.\<close>

definition get_stripped :: "json \<Rightarrow> pystr \<Rightarrow> exn + pystr" where
  "get_stripped data k =
     (case data_get data k (JStr []) of Inl x \<Rightarrow> Inl x | Inr v \<Rightarrow> strip_of v)"

text \<open>
  The \<^verbatim>\<open>try\<close> block of \<^verbatim>\<open>register\<close>. \<open>request_json\<close> is what \<^verbatim>\<open>request.get_json()\<close>
  does with the request: it returns the parsed body or raises (a body that is not JSON).
  \<open>rnd\<close> are the random bytes of \<^verbatim>\<open>uuid4\<close> and \<open>now\<close> the reading of the clock.
\<close>

definition register_try ::
  "lib \<Rightarrow> env \<Rightarrow> firestore option \<Rightarrow> exn + json \<Rightarrow> 128 word \<Rightarrow> datetime
     \<Rightarrow> (exn + response) \<times> firestore option" where
  "register_try l e db request_json rnd now =
     (case request_json of
        Inl x \<Rightarrow> (Inl x, db)
      | Inr data \<Rightarrow>
     (case get_stripped data (u ''name'') of
        Inl x \<Rightarrow> (Inl x, db)
      | Inr name \<Rightarrow>
     (case get_stripped data (u ''email'') of
        Inl x \<Rightarrow> (Inl x, db)
      | Inr email \<Rightarrow>
          if name = [] \<or> email = []
          then (Inr (jsonify [(u ''error'', JStr (u ''Name and email are required''))] 400), db)
          else
            (let ticket_id = uuid_str (uuid4 rnd)
             in case generate_qr_code l e ticket_id of
                  Inl x \<Rightarrow> (Inl x, db)
                | Inr qr_code_data \<Rightarrow>
                    (case store_ticket db ticket_id (ticket_data ticket_id name email now) of
                       Inl x \<Rightarrow> (Inl x, db)
                     | Inr db' \<Rightarrow>
                         if \<not> send_email_with_qr l e name email ticket_id qr_code_data
                         then (Inr (jsonify [(u ''error'',
                                  JStr (u ''Failed to send email. Please try again.''))] 500), db')
                         else (Inr (jsonify [(u ''message'',
                                  JStr (u ''Registration successful! Check your email for the QR code.'')),
                                  (u ''ticket_id'', JStr ticket_id)] 201), db'))))))"

text \<open>The handler: \<^verbatim>\<open>except Exception\<close> answers 500 with a fixed message.\<close>

definition register ::
  "lib \<Rightarrow> env \<Rightarrow> firestore option \<Rightarrow> exn + json \<Rightarrow> 128 word \<Rightarrow> datetime
     \<Rightarrow> response \<times> firestore option" where
  "register l e db request_json rnd now =
     (case register_try l e db request_json rnd now of
        (Inr r, db') \<Rightarrow> (r, db')
      | (Inl x, db') \<Rightarrow> (jsonify [(u ''error'', JStr (u ''Registration failed''))] 500, db'))"

section \<open>Start of the process\<close>

text \<open>\<^verbatim>\<open>key.replace('\\n', '\n')\<close>: a backslash followed by \<^verbatim>\<open>n\<close> becomes a line feed.\<close>

fun unescape_newlines :: "pystr \<Rightarrow> pystr" where
  "unescape_newlines (a # b # cs) =
     (if a = 92 \<and> b = 110 then 10 # unescape_newlines cs else a # unescape_newlines (b # cs))"
| "unescape_newlines cs = cs"

definition service_account :: "env \<Rightarrow> pystr \<Rightarrow> (string \<times> pystr option) list" where
  "service_account e private_key =
     [(''type'', Some (u ''service_account'')),
      (''project_id'', e ''FIREBASE_PROJECT_ID''),
      (''private_key_id'', e ''FIREBASE_PRIVATE_KEY_ID''),
      (''private_key'', Some private_key),
      (''client_email'', e ''FIREBASE_CLIENT_EMAIL''),
      (''client_id'', e ''FIREBASE_CLIENT_ID''),
      (''auth_uri'', Some (u ''https://accounts.google.com/o/oauth2/auth'')),
      (''token_uri'', Some (u ''https://oauth2.googleapis.com/token'')),
      (''auth_provider_x509_cert_url'', Some (u ''https://www.googleapis.com/oauth2/v1/certs'')),
      (''client_x509_cert_url'', e ''FIREBASE_CLIENT_CERT_URL'')]"

text \<open>
  The initialisation at import time. \<open>sdk\<close> stands for the three calls into the Firebase
  SDK (\<^verbatim>\<open>credentials.Certificate\<close>, \<^verbatim>\<open>initialize_app\<close>, \<^verbatim>\<open>firestore.client\<close>), which
  give a client or raise. A private key that is not set has no \<^verbatim>\<open>replace\<close>. Every
  exception leaves \<^verbatim>\<open>db = None\<close>, and the module goes on to define the routes.
\<close>

definition initialize_firebase ::
  "((string \<times> pystr option) list \<Rightarrow> exn + firestore) \<Rightarrow> env \<Rightarrow> firestore option" where
  "initialize_firebase sdk e =
     (case e ''FIREBASE_PRIVATE_KEY'' of
        None \<Rightarrow> None
      | Some key \<Rightarrow>
          (case sdk (service_account e (unescape_newlines key)) of
             Inl x \<Rightarrow> None
           | Inr fs \<Rightarrow> Some fs))"

section \<open>The smoke test of invalid registrations\<close>

text \<open>
  \<^verbatim>\<open>test_invalid_registration\<close> of \<^verbatim>\<open>test_system.py\<close> posts four bodies and passes when
  each is answered with 400. \<open>post\<close> is the exchange with the service: the status code of
  the answer, or \<open>None\<close> for a request that failed.
\<close>

definition test_cases :: "json list" where
  "test_cases =
     [JObj [(u ''name'', JStr []), (u ''email'', JStr (u ''test@example.com''))],
      JObj [(u ''name'', JStr (u ''Test User'')), (u ''email'', JStr [])],
      JObj [(u ''name'', JStr (u ''Test User'')), (u ''email'', JStr (u ''invalid-email''))],
      JObj []]"

fun run_cases :: "(json \<Rightarrow> nat option) \<Rightarrow> json list \<Rightarrow> bool \<Rightarrow> bool" where
  "run_cases post [] all_passed = all_passed"
| "run_cases post (c # cs) all_passed =
     run_cases post cs
       (case post c of
          Some code \<Rightarrow> if code = 400 then all_passed else False
        | None \<Rightarrow> False)"

definition test_invalid_registration :: "(json \<Rightarrow> nat option) \<Rightarrow> bool" where
  "test_invalid_registration post = run_cases post test_cases True"


section \<open>Sample data\<close>

text \<open>
  Concrete libraries, environments, stores and requests, on which the theorems below are
  run. The engine of \<open>demo_lib\<close> rejects every template it is asked to compile; the
  other libraries succeed.
\<close>

definition demo_lib :: lib where
  "demo_lib =
     \<lparr>jinja = (\<lambda>src. Inl TemplateSyntaxError),
      qr_make = (\<lambda>qr fit. Inr qr),
      qr_make_image = (\<lambda>qr fill back. Inr (Image [[0]])),
      image_encode = (\<lambda>img fmt. Inr [0x89, 0x50, 0x4E, 0x47]),
      smtp = (\<lambda>s. None),
      int_of_str = (\<lambda>s. Inr 587),
      str_timestamp = isoformat\<rparr>"

text \<open>
  Libraries that make the payload visible: the image is the payload itself, one pixel per
  character, and the PNG encoder writes the signature followed by the pixels; no other
  format is known to it.
\<close>

definition png_lib :: lib where
  "png_lib =
     demo_lib\<lparr>qr_make_image := (\<lambda>qr fill back. Inr (Image [concat (qr_data_list qr)])),
       image_encode := (\<lambda>img fmt. case img of Image rows \<Rightarrow>
          if fmt = u ''PNG'' then Inr (png_signature @ map of_nat (concat rows))
          else Inl ValueError)\<rparr>"

definition demo_now :: datetime where
  "demo_now =
     \<lparr>year = 2025, month = 3, day = 14, hour = 9, minute = 26, second = 53,
      microsecond = 589793\<rparr>"

definition empty_store :: firestore where
  "empty_store = \<lparr>tickets = (\<lambda>tid. None), online = True\<rparr>"

definition zero_uuid :: pystr where
  "zero_uuid = u ''00000000-0000-0000-0000-000000000000''"

definition no_env :: env where
  "no_env = (\<lambda>k. None)"

definition mail_env :: env where
  "mail_env =
     (\<lambda>k. if k = ''SENDER_EMAIL'' then Some (u ''fest@example.com'')
          else if k = ''SENDER_PASSWORD'' then Some (u ''app-password'')
          else None)"

definition demo_sdk :: "(string \<times> pystr option) list \<Rightarrow> exn + firestore" where
  "demo_sdk cfg = Inr empty_store"

definition test_user :: json where
  "test_user =
     JObj [(u ''name'', JStr (u ''Test User'')), (u ''email'', JStr (u ''test@example.com''))]"

definition invalid_email_user :: json where
  "invalid_email_user =
     JObj [(u ''name'', JStr (u ''Test User'')), (u ''email'', JStr (u ''invalid-email''))]"

text \<open>A body whose name is empty and whose email is the number 5.\<close>

definition number_email_body :: json where
  "number_email_body = JObj [(u ''name'', JStr []), (u ''email'', JNum 5)]"

text \<open>
  A registration under the name \<^verbatim>\<open>{#\<close>, the ticket id it gets from the random bytes
  \<open>0\<close>, the store after the registration, and the store after the ticket was scanned.
\<close>

definition comment_name :: pystr where
  "comment_name = [123, 35]"

definition comment_body :: json where
  "comment_body = JObj [(u ''name'', JStr comment_name), (u ''email'', JStr (u ''a@b.c''))]"

definition comment_id :: pystr where
  "comment_id = uuid_str (uuid4 0)"

definition comment_doc :: document where
  "comment_doc = map_of (ticket_data comment_id comment_name (u ''a@b.c'') demo_now)"

definition comment_store :: firestore where
  "comment_store = empty_store\<lparr>tickets := (tickets empty_store)(comment_id \<mapsto> comment_doc)\<rparr>"

definition scanned_store :: firestore where
  "scanned_store =
     comment_store\<lparr>tickets := (tickets comment_store)(comment_id \<mapsto>
       comment_doc ++ map_of [(''scanned'', FBool True), (''scanned_at'', FTime demo_now)])\<rparr>"

section \<open>Decimal fields and ISO 8601\<close>

lemma decimal_digits: "\<forall>c \<in> set (decimal n). 48 \<le> c \<and> c \<le> 57"
proof (induction n rule: decimal.induct)
  case (1 n)
  show ?case
  proof (cases "n < 10")
    case True
    then show ?thesis by (simp add: decimal.simps [of n])
  next
    case False
    with "1" have "\<forall>c \<in> set (decimal (n div 10)). 48 \<le> c \<and> c \<le> 57" by simp
    moreover have "n mod 10 < 10" by simp
    ultimately show ?thesis using False
      by (auto simp add: decimal.simps [of n])
  qed
qed

lemma decimal_length: "n < 10 ^ k \<Longrightarrow> 0 < k \<Longrightarrow> length (decimal n) \<le> k"
proof (induction n arbitrary: k rule: decimal.induct)
  case (1 n)
  show ?case
  proof (cases "n < 10")
    case True
    with "1.prems" show ?thesis by (simp add: decimal.simps [of n])
  next
    case False
    obtain j where k: "k = Suc j" using "1.prems"(2) by (cases k) auto
    have "0 < j" using False "1.prems"(1) k by (cases j) auto
    moreover have "n div 10 < 10 ^ j" using "1.prems"(1) k
      by (simp add: less_mult_imp_div_less mult.commute)
    ultimately have "length (decimal (n div 10)) \<le> j" using "1.IH" False by blast
    then show ?thesis using False k by (simp add: decimal.simps [of n])
  qed
qed

lemma zero_pad_digits:
  assumes "n < 10 ^ k" and "0 < k"
  shows "length (zero_pad k (decimal n)) = k \<and> list_all (in_class Digit) (zero_pad k (decimal n))"
  using decimal_length [OF assms] decimal_digits [of n]
  by (auto simp add: zero_pad_def list_all_iff)

lemma matches_append:
  "length ps = length xs \<Longrightarrow> matches (ps @ qs) (xs @ ys) = (matches ps xs \<and> matches qs ys)"
  by (induction ps xs rule: list_induct2) auto

lemma matches_replicate:
  "matches (replicate k c) xs = (length xs = k \<and> list_all (in_class c) xs)"
proof (induction k arbitrary: xs)
  case 0
  then show ?case by (cases xs) auto
next
  case (Suc k)
  then show ?case by (cases xs) auto
qed

lemma iso8601_seconds_groups:
  "iso8601_seconds = replicate 4 Digit @ [Lit 45] @ replicate 2 Digit @ [Lit 45] @
     replicate 2 Digit @ [Lit 84] @ replicate 2 Digit @ [Lit 58] @ replicate 2 Digit @
     [Lit 58] @ replicate 2 Digit"
  by (simp add: iso8601_seconds_def numeral_eq_Suc)

lemma days_in_month_le: "days_in_month y m \<le> 31"
  by (simp add: days_in_month_def)

lemma isoformat_iso8601:
  assumes "valid_datetime d"
  shows "iso8601 (isoformat d)"
proof -
  have y: "year d < 10 ^ 4" and mo: "month d < 10 ^ 2" and da: "day d < 10 ^ 2"
    and h: "hour d < 10 ^ 2" and mi: "minute d < 10 ^ 2" and s: "second d < 10 ^ 2"
    and us: "microsecond d < 10 ^ 6"
    using assms days_in_month_le [of "year d" "month d"] by (auto simp: valid_datetime_def)
  note z = zero_pad_digits [OF y] zero_pad_digits [OF mo] zero_pad_digits [OF da]
    zero_pad_digits [OF h] zero_pad_digits [OF mi] zero_pad_digits [OF s] zero_pad_digits [OF us]
  have sec: "matches iso8601_seconds
     (zero_pad 4 (decimal (year d)) @ [45] @ zero_pad 2 (decimal (month d)) @ [45] @
      zero_pad 2 (decimal (day d)) @ [84] @ zero_pad 2 (decimal (hour d)) @ [58] @
      zero_pad 2 (decimal (minute d)) @ [58] @ zero_pad 2 (decimal (second d)))"
    unfolding iso8601_seconds_groups using z
    by (simp add: matches_append matches_replicate)
  show ?thesis
  proof (cases "microsecond d = 0")
    case True
    then show ?thesis using sec by (simp add: iso8601_def isoformat_def u_def)
  next
    case False
    have len: "length iso8601_seconds =
      length (zero_pad 4 (decimal (year d)) @ [45] @ zero_pad 2 (decimal (month d)) @ [45] @
      zero_pad 2 (decimal (day d)) @ [84] @ zero_pad 2 (decimal (hour d)) @ [58] @
      zero_pad 2 (decimal (minute d)) @ [58] @ zero_pad 2 (decimal (second d)))"
      using z by (simp add: iso8601_seconds_def)
    have frac: "matches (Lit 46 # replicate 6 Digit) ([46] @ zero_pad 6 (decimal (microsecond d)))"
      using z by (simp add: matches_replicate)
    have "matches (iso8601_seconds @ Lit 46 # replicate 6 Digit)
      ((zero_pad 4 (decimal (year d)) @ [45] @ zero_pad 2 (decimal (month d)) @ [45] @
      zero_pad 2 (decimal (day d)) @ [84] @ zero_pad 2 (decimal (hour d)) @ [58] @
      zero_pad 2 (decimal (minute d)) @ [58] @ zero_pad 2 (decimal (second d))) @
      ([46] @ zero_pad 6 (decimal (microsecond d))))"
      using matches_append [OF len] sec frac by blast
    then show ?thesis using False by (simp add: iso8601_def isoformat_def u_def)
  qed
qed

section \<open>The shape of a ticket id\<close>

lemma nibble_lt: "unat (take_bit 4 (w :: 128 word)) < 16"
proof -
  have "take_bit 4 (unat w) < 2 ^ 4" by (rule take_bit_nat_less_exp)
  then show ?thesis by (simp add: unsigned_take_bit_eq)
qed

lemma hex_digit_class: "n < 16 \<Longrightarrow> in_class Hex (hex_digit n)"
  by (auto simp: hex_digit_def)

lemma uuid4_version: "take_bit 4 (drop_bit 76 (uuid4 r)) = 4"
  unfolding uuid4_def
  by (rule bit_word_eqI) (auto simp: bit_simps)

lemma uuid4_variant_nibble: "unat (take_bit 4 (drop_bit 60 (uuid4 r))) \<in> {8, 9, 10, 11}"
proof -
  define n where "n = unat (take_bit 4 (drop_bit 60 (uuid4 r)))"
  have lt: "n < 16" unfolding n_def by (rule nibble_lt)
  have "bit (take_bit 4 (drop_bit 60 (uuid4 r))) 3"
    by (simp add: uuid4_def bit_simps)
  then have b3: "bit n 3" unfolding n_def by (simp add: bit_unsigned_iff)
  have "\<not> bit (take_bit 4 (drop_bit 60 (uuid4 r))) 2"
    by (simp add: uuid4_def bit_simps)
  then have b2: "\<not> bit n 2" unfolding n_def by (simp add: bit_unsigned_iff)
  from b3 have "odd (n div 8)" by (simp add: bit_iff_odd)
  moreover from b2 have "even (n div 4)" by (simp add: bit_iff_odd)
  ultimately have "n = 8 \<or> n = 9 \<or> n = 10 \<or> n = 11" using lt by presburger
  then show ?thesis unfolding n_def by auto
qed

lemma uuid4_shape_list:
  "uuid4_shape =
     [Hex, Hex, Hex, Hex, Hex, Hex, Hex, Hex, Lit 45, Hex, Hex, Hex, Hex, Lit 45,
      Lit 52, Hex, Hex, Hex, Lit 45, OneOf [56, 57, 97, 98], Hex, Hex, Hex, Lit 45,
      Hex, Hex, Hex, Hex, Hex, Hex, Hex, Hex, Hex, Hex, Hex, Hex]"
  by (simp add: uuid4_shape_def numeral_eq_Suc)

lemma hex_nibble: "in_class Hex (hex_digit (unat (take_bit 4 (w :: 128 word))))"
  by (rule hex_digit_class [OF nibble_lt])

lemma hex_variant:
  "hex_digit (unat (take_bit 4 (drop_bit 60 (uuid4 r)))) \<in> {56, 57, 97, 98}"
  using uuid4_variant_nibble [of r] by (auto simp: hex_digit_def)

lemma hex_version: "hex_digit (unat (take_bit 4 (drop_bit 76 (uuid4 r)))) = 52"
  by (simp add: uuid4_version hex_digit_def)

lemma upt_32: "[0..<32] = [0, 1, 2, 3, 4, 5, 6, 7, 8, 9, 10, 11, 12, 13, 14, 15, 16, 17, 18, 19,
    20, 21, 22, 23, 24, 25, 26, 27, 28, 29, 30, 31 :: nat]"
  by (simp add: upt_rec)

lemma uuid_str_shape: "matches uuid4_shape (uuid_str (uuid4 r))"
  unfolding uuid4_shape_list
  using hex_variant [of r]
  by (simp add: uuid_str_def hex32_def upt_32 Let_def u_def hex_nibble hex_version
      del: in_class.simps(2))

lemma uuid_str_length: "length (uuid_str w) = 36"
  by (simp add: uuid_str_def hex32_def Let_def u_def)

section \<open>Static pages\<close>

lemma database_error_page_plain: "jinja_plain database_error_page"
  by (simp add: jinja_plain_def database_error_page_def u_def)

lemma invalid_ticket_page_plain: "jinja_plain invalid_ticket_page"
  by (simp add: jinja_plain_def invalid_ticket_page_def u_def)

lemma validation_error_page_plain: "jinja_plain validation_error_page"
  by (simp add: jinja_plain_def validation_error_page_def u_def)

lemma invalid_ticket_page_text: "sublist (u ''Invalid Ticket'') invalid_ticket_page"
  by (simp add: invalid_ticket_page_def u_def sublist_code)

lemma database_error_page_text: "sublist (u ''Database Error'') database_error_page"
  by (simp add: database_error_page_def u_def sublist_code)

lemma respond_plain:
  "jinja_plain src \<Longrightarrow> respond l src code = Inr \<lparr>status = code, body = Html src\<rparr>"
  by (simp add: respond_def render_template_string_def)

section \<open>Facts about the sample data\<close>

lemma demo_now_valid: "valid_datetime demo_now"
  by (simp add: valid_datetime_def demo_now_def days_in_month_def)

lemma isoformat_demo_now: "isoformat demo_now = u ''2025-03-14T09:26:53.589793''"
  by (simp add: isoformat_def demo_now_def zero_pad_def decimal.simps u_def)

lemma strftime_demo_now: "strftime_ymd_hms demo_now = u ''2025-03-14 09:26:53''"
  by (simp add: strftime_ymd_hms_def demo_now_def zero_pad_def decimal.simps u_def)

lemma strip_test_user: "strip (u ''Test User'') = u ''Test User''"
  by (simp add: strip_def isspace_def u_def)

lemma strip_test_email: "strip (u ''test@example.com'') = u ''test@example.com''"
  by (simp add: strip_def isspace_def u_def)

lemma strip_invalid_email: "strip (u ''invalid-email'') = u ''invalid-email''"
  by (simp add: strip_def isspace_def u_def)

lemma strip_comment_name: "strip comment_name = comment_name"
  by (simp add: strip_def isspace_def comment_name_def)

lemma strip_abc: "strip (u ''a@b.c'') = u ''a@b.c''"
  by (simp add: strip_def isspace_def u_def)

lemma name_key_neq_email_key: "u ''email'' \<noteq> u ''name''"
  by (simp add: u_def)

lemma send_demo:
  "name \<noteq> [] \<Longrightarrow> send_email_with_qr demo_lib mail_env name email ticket_id png"
  by (simp add: send_email_with_qr_def send_email_try_def demo_lib_def mail_env_def
      getenv_def u_def)

lemma qr_demo: "generate_qr_code demo_lib e ticket_id = Inr [0x89, 0x50, 0x4E, 0x47]"
  by (simp add: generate_qr_code_def generate_qr_code_fs_def demo_lib_def Let_def
      image_save_def BytesIO_def bytes_io_write_def)

section \<open>Reading the body\<close>

lemma get_stripped_string:
  "map_of kvs k = Some (JStr s) \<Longrightarrow> get_stripped (JObj kvs) k = Inr (strip s)"
  by (simp add: get_stripped_def)

lemma get_stripped_absent:
  "map_of kvs k = None \<Longrightarrow> get_stripped (JObj kvs) k = Inr []"
  by (simp add: get_stripped_def strip_def)

lemma ticket_data_scanned:
  "map_of (ticket_data t n m now) ''scanned'' = Some (FBool False)"
  "map_of (ticket_data t n m now) ''scanned_at'' = Some FNone"
  "map_of (ticket_data t n m now) ''name'' = Some (FStr n)"
  "map_of (ticket_data t n m now) ''email'' = Some (FStr m)"
  "map_of (ticket_data t n m now) ''ticket_id'' = Some (FStr t)"
  by (simp_all add: ticket_data_def)

text \<open>The handler after the two fields were read and found not empty.\<close>

lemma register_fields_present:
  assumes "get_stripped data (u ''name'') = Inr name" and "name \<noteq> []"
    and "get_stripped data (u ''email'') = Inr email" and "email \<noteq> []"
  shows "register l e db (Inr data) rnd now =
     (case generate_qr_code l e (uuid_str (uuid4 rnd)) of
        Inl x \<Rightarrow> (jsonify [(u ''error'', JStr (u ''Registration failed''))] 500, db)
      | Inr png \<Rightarrow>
          (case store_ticket db (uuid_str (uuid4 rnd))
                  (ticket_data (uuid_str (uuid4 rnd)) name email now) of
             Inl x \<Rightarrow> (jsonify [(u ''error'', JStr (u ''Registration failed''))] 500, db)
           | Inr db' \<Rightarrow>
               if send_email_with_qr l e name email (uuid_str (uuid4 rnd)) png
               then (jsonify [(u ''message'',
                        JStr (u ''Registration successful! Check your email for the QR code.'')),
                        (u ''ticket_id'', JStr (uuid_str (uuid4 rnd)))] 201, db')
               else (jsonify [(u ''error'',
                        JStr (u ''Failed to send email. Please try again.''))] 500, db')))"
  using assms
  by (simp add: register_def register_try_def Let_def split: sum.splits)

lemma store_ticket_online:
  "online fs \<Longrightarrow> store_ticket (Some fs) t kvs =
     Inr (Some (fs\<lparr>tickets := (tickets fs)(t \<mapsto> map_of kvs)\<rparr>))"
  by (simp add: store_ticket_def document_set_def)

section \<open>Registration\<close>

text \<open>
  C1. A \<^verbatim>\<open>POST /register\<close> whose body is a JSON object with a name and an email that
  are not empty after trimming, with the store available and the email delivered (the
  QR image was generated and the message that carries it was sent), is answered with 201
  and the body \<^verbatim>\<open>{message, ticket_id}\<close>. The ticket id has the shape of a version 4
  UUID, and the store then holds a document under that id with \<^verbatim>\<open>scanned = False\<close> and
  \<^verbatim>\<open>scanned_at = None\<close>.
\<close>

theorem register_success:
  assumes "map_of kvs (u ''name'') = Some (JStr n)" and "strip n \<noteq> []"
    and "map_of kvs (u ''email'') = Some (JStr m)" and "strip m \<noteq> []"
    and "online fs"
    and "generate_qr_code l e (uuid_str (uuid4 rnd)) = Inr png"
    and "send_email_with_qr l e (strip n) (strip m) (uuid_str (uuid4 rnd)) png"
  shows "\<exists>fs' doc.
     register l e (Some fs) (Inr (JObj kvs)) rnd now =
       (\<lparr>status = 201,
         body = Json (JObj [(u ''message'',
                   JStr (u ''Registration successful! Check your email for the QR code.'')),
                 (u ''ticket_id'', JStr (uuid_str (uuid4 rnd)))])\<rparr>, Some fs')
     \<and> matches uuid4_shape (uuid_str (uuid4 rnd))
     \<and> tickets fs' (uuid_str (uuid4 rnd)) = Some doc
     \<and> doc ''scanned'' = Some (FBool False)
     \<and> doc ''scanned_at'' = Some FNone
     \<and> doc ''name'' = Some (FStr (strip n))
     \<and> doc ''email'' = Some (FStr (strip m))"
  using assms uuid_str_shape [of rnd]
  by (simp add: register_fields_present get_stripped_string store_ticket_online jsonify_def
      ticket_data_scanned)

theorem register_success_witness:
  "map_of [(u ''name'', JStr (u ''Test User'')), (u ''email'', JStr (u ''test@example.com''))]
     (u ''name'') = Some (JStr (u ''Test User''))
   \<and> strip (u ''Test User'') \<noteq> []
   \<and> strip (u ''test@example.com'') \<noteq> []
   \<and> online empty_store
   \<and> (\<exists>fs' doc.
     register demo_lib mail_env (Some empty_store) (Inr test_user) 0 demo_now =
       (\<lparr>status = 201,
         body = Json (JObj [(u ''message'',
                   JStr (u ''Registration successful! Check your email for the QR code.'')),
                 (u ''ticket_id'', JStr (uuid_str (uuid4 0)))])\<rparr>, Some fs')
     \<and> matches uuid4_shape (uuid_str (uuid4 0))
     \<and> tickets fs' (uuid_str (uuid4 0)) = Some doc
     \<and> doc ''scanned'' = Some (FBool False)
     \<and> doc ''scanned_at'' = Some FNone)"
proof -
  have n: "map_of [(u ''name'', JStr (u ''Test User'')),
      (u ''email'', JStr (u ''test@example.com''))] (u ''name'') = Some (JStr (u ''Test User''))"
    by simp
  have m: "map_of [(u ''name'', JStr (u ''Test User'')),
      (u ''email'', JStr (u ''test@example.com''))] (u ''email'')
      = Some (JStr (u ''test@example.com''))"
    using name_key_neq_email_key by simp
  have sn: "strip (u ''Test User'') \<noteq> []"
    unfolding strip_test_user by (simp add: u_def)
  have sm: "strip (u ''test@example.com'') \<noteq> []"
    unfolding strip_test_email by (simp add: u_def)
  have on: "online empty_store" by (simp add: empty_store_def)
  show ?thesis
    using n sn sm on
      register_success [OF n sn m sm on qr_demo send_demo [OF sn], of 0 demo_now]
    by (auto simp: test_user_def)
qed

text \<open>
  C4. The claim as stated: a JSON object whose name or email is empty after trimming is
  answered with 400. It fails for a body whose other field is not a string: the name of
  \<open>number_email_body\<close> is empty, and the answer is 500.
\<close>

theorem register_empty_name_number_email:
  "get_stripped number_email_body (u ''name'') = Inr []
   \<and> register demo_lib mail_env (Some empty_store) (Inr number_email_body) 0 demo_now =
       (\<lparr>status = 500, body = Json (JObj [(u ''error'', JStr (u ''Registration failed''))])\<rparr>,
        Some empty_store)"
  using name_key_neq_email_key
  by (simp add: number_email_body_def get_stripped_def strip_def register_def register_try_def
      jsonify_def)

text \<open>
  C4, amended. A JSON object whose name and email are each absent or a string, and one
  of them empty after trimming (the two fields are read as the handler reads them), is
  answered with 400 and the body \<^verbatim>\<open>{error: "Name and email are required"}\<close>, and the
  store is left as it was.
\<close>

theorem register_missing_field:
  assumes "get_stripped (JObj kvs) (u ''name'') = Inr name"
    and "get_stripped (JObj kvs) (u ''email'') = Inr email"
    and "name = [] \<or> email = []"
  shows "register l e db (Inr (JObj kvs)) rnd now =
           (\<lparr>status = 400,
             body = Json (JObj [(u ''error'', JStr (u ''Name and email are required''))])\<rparr>, db)"
  using assms
  by (auto simp: register_def register_try_def jsonify_def)

theorem register_missing_field_witness:
  "get_stripped (JObj []) (u ''name'') = Inr []
   \<and> get_stripped (JObj []) (u ''email'') = Inr []
   \<and> register demo_lib mail_env (Some empty_store) (Inr (JObj [])) 0 demo_now =
           (\<lparr>status = 400,
             body = Json (JObj [(u ''error'', JStr (u ''Name and email are required''))])\<rparr>,
            Some empty_store)"
proof -
  have n: "get_stripped (JObj []) (u ''name'') = Inr []" by (simp add: get_stripped_absent)
  have m: "get_stripped (JObj []) (u ''email'') = Inr []" by (simp add: get_stripped_absent)
  have "[] = ([] :: pystr) \<or> [] = ([] :: pystr)" by simp
  from register_missing_field [OF n m this] n m show ?thesis by simp
qed

text \<open>
  C5. When the handler reaches the email and the delivery fails, the answer is 500 with
  the body \<^verbatim>\<open>{error: "Failed to send email. Please try again."}\<close>. The store was written
  before: with a store that is available the ticket of this request is in it afterwards,
  with \<^verbatim>\<open>scanned = False\<close>. Missing sender credentials are such a failure.
\<close>

theorem register_email_failure:
  assumes "map_of kvs (u ''name'') = Some (JStr n)" and "strip n \<noteq> []"
    and "map_of kvs (u ''email'') = Some (JStr m)" and "strip m \<noteq> []"
    and "online fs"
    and "generate_qr_code l e (uuid_str (uuid4 rnd)) = Inr png"
    and "\<not> send_email_with_qr l e (strip n) (strip m) (uuid_str (uuid4 rnd)) png"
  shows "(\<exists>fs' doc.
     register l e (Some fs) (Inr (JObj kvs)) rnd now =
       (\<lparr>status = 500,
         body = Json (JObj [(u ''error'',
                   JStr (u ''Failed to send email. Please try again.''))])\<rparr>, Some fs')
     \<and> tickets fs' (uuid_str (uuid4 rnd)) = Some doc
     \<and> doc ''scanned'' = Some (FBool False)
     \<and> doc ''name'' = Some (FStr (strip n))
     \<and> doc ''email'' = Some (FStr (strip m)))
   \<and> register l e None (Inr (JObj kvs)) rnd now =
       (\<lparr>status = 500,
         body = Json (JObj [(u ''error'',
                   JStr (u ''Failed to send email. Please try again.''))])\<rparr>, None)
   \<and> (\<forall>e' a b t q. e' ''SENDER_EMAIL'' = None \<or> e' ''SENDER_PASSWORD'' = None
          \<longrightarrow> \<not> send_email_with_qr l e' a b t q)"
proof -
  have cred: "\<forall>e' a b t q. e' ''SENDER_EMAIL'' = None \<or> e' ''SENDER_PASSWORD'' = None
          \<longrightarrow> \<not> send_email_with_qr l e' a b t q"
    by (auto simp: send_email_with_qr_def send_email_try_def Let_def
        split: sum.splits option.splits)
  have "register l e None (Inr (JObj kvs)) rnd now =
       (\<lparr>status = 500,
         body = Json (JObj [(u ''error'',
                   JStr (u ''Failed to send email. Please try again.''))])\<rparr>, None)"
    using assms
    by (simp add: register_fields_present get_stripped_string store_ticket_def jsonify_def)
  moreover have "\<exists>fs' doc.
     register l e (Some fs) (Inr (JObj kvs)) rnd now =
       (\<lparr>status = 500,
         body = Json (JObj [(u ''error'',
                   JStr (u ''Failed to send email. Please try again.''))])\<rparr>, Some fs')
     \<and> tickets fs' (uuid_str (uuid4 rnd)) = Some doc
     \<and> doc ''scanned'' = Some (FBool False)
     \<and> doc ''name'' = Some (FStr (strip n))
     \<and> doc ''email'' = Some (FStr (strip m))"
    using assms
    by (simp add: register_fields_present get_stripped_string store_ticket_online jsonify_def
        ticket_data_scanned)
  ultimately show ?thesis using cred by blast
qed

theorem register_email_failure_witness:
  "strip (u ''Test User'') \<noteq> [] \<and> strip (u ''test@example.com'') \<noteq> []
   \<and> online empty_store
   \<and> no_env ''SENDER_EMAIL'' = None
   \<and> \<not> send_email_with_qr demo_lib no_env (strip (u ''Test User''))
         (strip (u ''test@example.com'')) (uuid_str (uuid4 0)) [0x89, 0x50, 0x4E, 0x47]
   \<and> (\<exists>fs' doc.
     register demo_lib no_env (Some empty_store) (Inr test_user) 0 demo_now =
       (\<lparr>status = 500,
         body = Json (JObj [(u ''error'',
                   JStr (u ''Failed to send email. Please try again.''))])\<rparr>, Some fs')
     \<and> tickets fs' (uuid_str (uuid4 0)) = Some doc
     \<and> doc ''scanned'' = Some (FBool False))"
proof -
  have n: "map_of [(u ''name'', JStr (u ''Test User'')),
      (u ''email'', JStr (u ''test@example.com''))] (u ''name'') = Some (JStr (u ''Test User''))"
    by simp
  have m: "map_of [(u ''name'', JStr (u ''Test User'')),
      (u ''email'', JStr (u ''test@example.com''))] (u ''email'')
      = Some (JStr (u ''test@example.com''))"
    using name_key_neq_email_key by simp
  have sn: "strip (u ''Test User'') \<noteq> []"
    unfolding strip_test_user by (simp add: u_def)
  have sm: "strip (u ''test@example.com'') \<noteq> []"
    unfolding strip_test_email by (simp add: u_def)
  have on: "online empty_store" by (simp add: empty_store_def)
  have ne: "no_env ''SENDER_EMAIL'' = None" by (simp add: no_env_def)
  have ns: "\<not> send_email_with_qr demo_lib no_env (strip (u ''Test User''))
         (strip (u ''test@example.com'')) (uuid_str (uuid4 0)) [0x89, 0x50, 0x4E, 0x47]"
    by (simp add: send_email_with_qr_def send_email_try_def demo_lib_def no_env_def getenv_def)
  show ?thesis
    using sn sm on ne ns
      register_email_failure [OF n sn m sm on qr_demo ns, of demo_now]
    by (auto simp: test_user_def)
qed

text \<open>The loop of the smoke test: one answer other than 400 fails the test.\<close>

lemma run_cases_false: "run_cases post cs False = False"
  by (induction cs) (auto split: option.splits)

lemma run_cases_fail:
  "c \<in> set cs \<Longrightarrow> post c \<noteq> Some 400 \<Longrightarrow> run_cases post cs b = False"
proof (induction cs arbitrary: b)
  case Nil
  then show ?case by simp
next
  case (Cons a cs)
  show ?case
  proof (cases "c = a")
    case True
    with Cons.prems(2) have "(case post a of
          Some code \<Rightarrow> if code = 400 then b else False | None \<Rightarrow> False) = False"
      by (auto split: option.splits)
    then show ?thesis by (simp add: run_cases_false)
  next
    case False
    with Cons.prems(1) have "c \<in> set cs" by simp
    from Cons.IH [OF this Cons.prems(2)] show ?thesis by simp
  qed
qed

text \<open>
  C6. The email is not checked for its format. A body with a name and an email that are
  not empty after trimming is never answered with 400, whatever the email looks like;
  with the store available and the QR image generated, the ticket is written with that
  email. The smoke test posts the email \<^verbatim>\<open>invalid-email\<close> and expects 400: against a
  service that answers this body as \<open>register\<close> does, the test fails.
\<close>

theorem register_no_email_format_check:
  assumes "map_of kvs (u ''name'') = Some (JStr n)" and "strip n \<noteq> []"
    and "map_of kvs (u ''email'') = Some (JStr m)" and "strip m \<noteq> []"
  shows "status (fst (register l e db (Inr (JObj kvs)) rnd now)) \<noteq> 400
   \<and> (\<forall>fs png. db = Some fs \<and> online fs
          \<and> generate_qr_code l e (uuid_str (uuid4 rnd)) = Inr png
        \<longrightarrow> (\<exists>fs' doc. snd (register l e db (Inr (JObj kvs)) rnd now) = Some fs'
               \<and> tickets fs' (uuid_str (uuid4 rnd)) = Some doc
               \<and> doc ''email'' = Some (FStr (strip m))))
   \<and> (\<forall>post l' e' db' rnd' now'.
          post invalid_email_user =
            Some (status (fst (register l' e' db' (Inr invalid_email_user) rnd' now')))
        \<longrightarrow> \<not> test_invalid_registration post)"
proof -
  have never: "status (fst (register l' e' db' (Inr (JObj kvs')) rnd' now')) \<noteq> 400"
    if "map_of kvs' (u ''name'') = Some (JStr n')" "strip n' \<noteq> []"
       "map_of kvs' (u ''email'') = Some (JStr m')" "strip m' \<noteq> []"
    for l' e' db' kvs' rnd' now' n' m'
    using that
    by (simp add: register_fields_present get_stripped_string jsonify_def
        split: sum.splits)
  have created: "\<exists>fs' doc. snd (register l e db (Inr (JObj kvs)) rnd now) = Some fs'
               \<and> tickets fs' (uuid_str (uuid4 rnd)) = Some doc
               \<and> doc ''email'' = Some (FStr (strip m))"
    if "db = Some fs" "online fs" "generate_qr_code l e (uuid_str (uuid4 rnd)) = Inr png"
    for fs png
    using that assms
    by (simp add: register_fields_present get_stripped_string store_ticket_online
        ticket_data_scanned)
  have inv: "status (fst (register l' e' db' (Inr invalid_email_user) rnd' now')) \<noteq> 400"
    for l' e' db' rnd' now'
  proof -
    have "strip (u ''Test User'') \<noteq> []"
      unfolding strip_test_user by (simp add: u_def)
    moreover have "strip (u ''invalid-email'') \<noteq> []"
      unfolding strip_invalid_email by (simp add: u_def)
    ultimately show ?thesis
      unfolding invalid_email_user_def
      using name_key_neq_email_key
      by (intro never [where n' = "u ''Test User''" and m' = "u ''invalid-email''"]) simp_all
  qed
  have test: "\<not> test_invalid_registration post"
    if "post invalid_email_user =
            Some (status (fst (register l' e' db' (Inr invalid_email_user) rnd' now')))"
    for post l' e' db' rnd' now'
  proof -
    have "post invalid_email_user \<noteq> Some 400" using that inv [of l' e' db' rnd' now'] by simp
    moreover have "invalid_email_user \<in> set test_cases"
      by (simp add: test_cases_def invalid_email_user_def)
    ultimately show ?thesis
      by (simp add: test_invalid_registration_def run_cases_fail)
  qed
  from never [OF assms] created test show ?thesis by blast
qed

theorem register_no_email_format_check_witness:
  "strip (u ''Test User'') \<noteq> [] \<and> strip (u ''invalid-email'') \<noteq> []
   \<and> status (fst (register demo_lib mail_env (Some empty_store) (Inr invalid_email_user) 0
        demo_now)) \<noteq> 400
   \<and> \<not> test_invalid_registration (\<lambda>c. Some (status (fst (register demo_lib mail_env
        (Some empty_store) (Inr c) 0 demo_now))))"
proof -
  have n: "map_of [(u ''name'', JStr (u ''Test User'')),
      (u ''email'', JStr (u ''invalid-email''))] (u ''name'') = Some (JStr (u ''Test User''))"
    by simp
  have m: "map_of [(u ''name'', JStr (u ''Test User'')),
      (u ''email'', JStr (u ''invalid-email''))] (u ''email'')
      = Some (JStr (u ''invalid-email''))"
    using name_key_neq_email_key by simp
  have sn: "strip (u ''Test User'') \<noteq> []"
    unfolding strip_test_user by (simp add: u_def)
  have sm: "strip (u ''invalid-email'') \<noteq> []"
    unfolding strip_invalid_email by (simp add: u_def)
  note t = register_no_email_format_check [OF n sn m sm,
      of demo_lib mail_env "Some empty_store" 0 demo_now]
  from t have a: "status (fst (register demo_lib mail_env (Some empty_store)
      (Inr invalid_email_user) 0 demo_now)) \<noteq> 400"
    by (simp add: invalid_email_user_def)
  from t have "\<forall>post l' e' db' rnd' now'.
          post invalid_email_user =
            Some (status (fst (register l' e' db' (Inr invalid_email_user) rnd' now')))
        \<longrightarrow> \<not> test_invalid_registration post" by blast
  then have b: "\<not> test_invalid_registration (\<lambda>c. Some (status (fst (register demo_lib mail_env
        (Some empty_store) (Inr c) 0 demo_now))))"
    by (rule allE [where x = "\<lambda>c. Some (status (fst (register demo_lib mail_env
        (Some empty_store) (Inr c) 0 demo_now)))"]) blast
  from sn sm a b show ?thesis by blast
qed

text \<open>
  C10. A request whose body does not parse to a JSON object (\<^verbatim>\<open>get_json\<close> raises, or
  returns \<^verbatim>\<open>None\<close> or another value that is not a \<^verbatim>\<open>dict\<close>) fails inside the handler
  and is answered by its catch-all with 500 and \<^verbatim>\<open>{error: "Registration failed"}\<close>, not
  with 400; the store is left as it was.
\<close>

theorem register_not_an_object:
  assumes "\<forall>kvs. request_json \<noteq> Inr (JObj kvs)"
  shows "register l e db request_json rnd now =
           (\<lparr>status = 500,
             body = Json (JObj [(u ''error'', JStr (u ''Registration failed''))])\<rparr>, db)"
proof (cases request_json)
  case (Inl x)
  then show ?thesis by (simp add: register_def register_try_def jsonify_def)
next
  case (Inr data)
  with assms have "\<forall>kvs. data \<noteq> JObj kvs" by simp
  then have "get_stripped data (u ''name'') = Inl AttributeError"
    by (cases data) (simp_all add: get_stripped_def)
  with Inr show ?thesis by (simp add: register_def register_try_def jsonify_def)
qed

theorem register_not_an_object_witness:
  "(\<forall>kvs. (Inr JNull :: exn + json) \<noteq> Inr (JObj kvs))
   \<and> register demo_lib mail_env (Some empty_store) (Inr JNull) 0 demo_now =
       (\<lparr>status = 500,
         body = Json (JObj [(u ''error'', JStr (u ''Registration failed''))])\<rparr>,
        Some empty_store)
   \<and> register demo_lib mail_env (Some empty_store) (Inl BadRequest) 0 demo_now =
       (\<lparr>status = 500,
         body = Json (JObj [(u ''error'', JStr (u ''Registration failed''))])\<rparr>,
        Some empty_store)"
  using register_not_an_object [of "Inr JNull" demo_lib mail_env "Some empty_store" 0 demo_now]
    register_not_an_object [of "Inl BadRequest" demo_lib mail_env "Some empty_store" 0 demo_now]
  by simp

section \<open>The QR code\<close>

lemma bytes_io_fresh: "content (bytes_io_write BytesIO d) = d"
  by (simp add: bytes_io_write_def BytesIO_def Let_def)

text \<open>Whatever the libraries do, the function leaves the files as they are.\<close>

lemma generate_qr_code_fs_files: "snd (generate_qr_code_fs l e ticket_id files) = files"
  by (simp add: generate_qr_code_fs_def image_save_def Let_def bytes_io_fresh
      split: sum.splits)

text \<open>The value returned does not depend on the files.\<close>

lemma generate_qr_code_fs_value:
  "generate_qr_code_fs l e ticket_id files = (generate_qr_code l e ticket_id, files)"
  by (simp add: generate_qr_code_def generate_qr_code_fs_def image_save_def Let_def
      bytes_io_fresh split: sum.splits)

text \<open>
  C9. For every ticket id \<open>T\<close> the generator asks the library for the symbol of exactly
  one string, \<^verbatim>\<open><BASE_URL>/validate/T\<close>, with \<^verbatim>\<open>http://localhost:5000\<close> for a base URL
  that is not set, at error correction level L, box size 10 and border 4. When the
  library makes and draws that symbol and encodes the image, the function returns the
  bytes of the encoding in the format \<^verbatim>\<open>PNG\<close>, which are PNG data for an encoder that
  writes PNG data under that name. The files of the machine are the same afterwards, for
  these libraries and for any others.
\<close>

theorem generate_qr_code_png:
  assumes "qr_make l
      \<lparr>qr_version = 1, qr_error_correction = ERROR_CORRECT_L, qr_box_size = 10, qr_border = 4,
       qr_data_list =
         [(case e ''BASE_URL'' of None \<Rightarrow> u ''http://localhost:5000'' | Some b \<Rightarrow> b)
          @ u ''/validate/'' @ ticket_id]\<rparr> True = Inr made"
    and "qr_make_image l made (u ''black'') (u ''white'') = Inr img"
    and "image_encode l img (u ''PNG'') = Inr png"
    and "\<forall>i d. image_encode l i (u ''PNG'') = Inr d \<longrightarrow> is_png d"
  shows "generate_qr_code_fs l e ticket_id files = (Inr png, files)
       \<and> generate_qr_code l e ticket_id = Inr png
       \<and> is_png png
       \<and> (\<forall>l' e' t' files'. snd (generate_qr_code_fs l' e' t' files') = files')"
proof -
  have "generate_qr_code_fs l e ticket_id files = (Inr png, files)"
    using assms(1-3)
    by (simp add: generate_qr_code_fs_def validation_url_def getenv_def QRCode_def
        add_data_def Let_def image_save_def bytes_io_fresh)
  moreover from this have "generate_qr_code l e ticket_id = Inr png"
    by (simp add: generate_qr_code_fs_value)
  moreover have "is_png png" using assms(3,4) by blast
  ultimately show ?thesis by (simp add: generate_qr_code_fs_files)
qed

theorem generate_qr_code_png_witness:
  "generate_qr_code_fs png_lib no_env zero_uuid (\<lambda>name. None) =
     (Inr (png_signature @ map of_nat
        (u ''http://localhost:5000/validate/00000000-0000-0000-0000-000000000000'')),
      (\<lambda>name. None))
   \<and> is_png (png_signature @ map of_nat
        (u ''http://localhost:5000/validate/00000000-0000-0000-0000-000000000000''))"
proof -
  let ?url = "(case no_env ''BASE_URL'' of None \<Rightarrow> u ''http://localhost:5000'' | Some b \<Rightarrow> b)
          @ u ''/validate/'' @ zero_uuid"
  let ?qr = "\<lparr>qr_version = 1, qr_error_correction = ERROR_CORRECT_L, qr_box_size = 10,
       qr_border = 4, qr_data_list = [?url]\<rparr>"
  have made: "qr_make png_lib ?qr True = Inr ?qr"
    by (simp add: png_lib_def demo_lib_def)
  have drawn: "qr_make_image png_lib ?qr (u ''black'') (u ''white'') = Inr (Image [?url])"
    by (simp add: png_lib_def demo_lib_def)
  have encoded: "image_encode png_lib (Image [?url]) (u ''PNG'') =
      Inr (png_signature @ map of_nat ?url)"
    by (simp add: png_lib_def demo_lib_def)
  have encoder: "\<forall>i d. image_encode png_lib i (u ''PNG'') = Inr d \<longrightarrow> is_png d"
    by (auto simp: png_lib_def demo_lib_def is_png_def png_signature_def split: image.splits)
  have url: "?url = u ''http://localhost:5000/validate/00000000-0000-0000-0000-000000000000''"
    by (simp add: no_env_def zero_uuid_def u_def)
  from generate_qr_code_png [where l = png_lib and e = no_env and ticket_id = zero_uuid
      and files = "\<lambda>name. None", OF made drawn encoded encoder]
  show ?thesis unfolding url by blast
qed

section \<open>Validation\<close>

text \<open>
  C7. When the store is available and holds no document for the ticket id, the answer to
  \<^verbatim>\<open>GET /validate/<ticket_id>\<close> is 404 with the page that contains "Invalid Ticket", and
  the store is left as it was.
\<close>

theorem validate_unknown_ticket:
  assumes "online fs" and "tickets fs ticket_id = None"
  shows "validate_ticket l (Some fs) ticket_id now1 now2 =
           (Inr \<lparr>status = 404, body = Html invalid_ticket_page\<rparr>, Some fs)
         \<and> sublist (u ''Invalid Ticket'') invalid_ticket_page"
  using assms
  by (simp add: validate_ticket_def validate_ticket_try_def document_get_def respond_plain
      invalid_ticket_page_plain invalid_ticket_page_text)

theorem validate_unknown_ticket_witness:
  "online empty_store \<and> tickets empty_store zero_uuid = None \<and>
   validate_ticket demo_lib (Some empty_store) zero_uuid demo_now demo_now =
     (Inr \<lparr>status = 404, body = Html invalid_ticket_page\<rparr>, Some empty_store)"
  using validate_unknown_ticket [of empty_store zero_uuid demo_lib demo_now demo_now]
  by (simp add: empty_store_def)

text \<open>
  C8. When the initialisation fails at the start of the process (the private key is not
  set, or the SDK raises), \<^verbatim>\<open>db\<close> is \<^verbatim>\<open>None\<close> and the service runs without the store:
  every \<^verbatim>\<open>GET /validate/<ticket_id>\<close> is answered with 500 and the "Database Error"
  page, and \<^verbatim>\<open>GET /health\<close> with 200, \<^verbatim>\<open>status\<close> "healthy", \<^verbatim>\<open>firebase_connected\<close> false
  and the clock reading in ISO 8601.
\<close>

theorem degraded_mode:
  assumes "\<forall>key fs. e ''FIREBASE_PRIVATE_KEY'' = Some key \<longrightarrow>
             sdk (service_account e (unescape_newlines key)) \<noteq> Inr fs"
    and "valid_datetime now"
  shows "initialize_firebase sdk e = None
       \<and> validate_ticket l (initialize_firebase sdk e) ticket_id now1 now2 =
           (Inr \<lparr>status = 500, body = Html database_error_page\<rparr>, None)
       \<and> sublist (u ''Database Error'') database_error_page
       \<and> health (initialize_firebase sdk e) now =
           \<lparr>status = 200, body = Json (JObj [(u ''status'', JStr (u ''healthy'')),
              (u ''firebase_connected'', JBool False),
              (u ''timestamp'', JStr (isoformat now))])\<rparr>
       \<and> iso8601 (isoformat now)"
proof -
  have db: "initialize_firebase sdk e = None"
    using assms(1) by (auto simp: initialize_firebase_def split: option.splits sum.splits)
  have "validate_ticket l None ticket_id now1 now2 =
           (Inr \<lparr>status = 500, body = Html database_error_page\<rparr>, None)"
    by (simp add: validate_ticket_def validate_ticket_try_def respond_plain
        database_error_page_plain)
  moreover have "health None now =
           \<lparr>status = 200, body = Json (JObj [(u ''status'', JStr (u ''healthy'')),
              (u ''firebase_connected'', JBool False),
              (u ''timestamp'', JStr (isoformat now))])\<rparr>"
    by (simp add: health_def jsonify_def)
  ultimately show ?thesis
    using db database_error_page_text isoformat_iso8601 [OF assms(2)] by simp
qed

theorem degraded_mode_witness:
  "no_env ''FIREBASE_PRIVATE_KEY'' = None
   \<and> valid_datetime demo_now
   \<and> initialize_firebase demo_sdk no_env = None
   \<and> validate_ticket demo_lib (initialize_firebase demo_sdk no_env) zero_uuid demo_now demo_now =
           (Inr \<lparr>status = 500, body = Html database_error_page\<rparr>, None)
   \<and> health (initialize_firebase demo_sdk no_env) demo_now =
           \<lparr>status = 200, body = Json (JObj [(u ''status'', JStr (u ''healthy'')),
              (u ''firebase_connected'', JBool False),
              (u ''timestamp'', JStr (u ''2025-03-14T09:26:53.589793''))])\<rparr>"
proof -
  have h: "\<forall>key fs. no_env ''FIREBASE_PRIVATE_KEY'' = Some key \<longrightarrow>
       demo_sdk (service_account no_env (unescape_newlines key)) \<noteq> Inr fs"
    by (simp add: no_env_def)
  from degraded_mode [OF h demo_now_valid, of demo_lib zero_uuid demo_now demo_now]
  have "initialize_firebase demo_sdk no_env = None"
    and "validate_ticket demo_lib (initialize_firebase demo_sdk no_env) zero_uuid demo_now demo_now =
           (Inr \<lparr>status = 500, body = Html database_error_page\<rparr>, None)"
    and "health (initialize_firebase demo_sdk no_env) demo_now =
           \<lparr>status = 200, body = Json (JObj [(u ''status'', JStr (u ''healthy'')),
              (u ''firebase_connected'', JBool False),
              (u ''timestamp'', JStr (isoformat demo_now))])\<rparr>"
    by blast+
  moreover have "no_env ''FIREBASE_PRIVATE_KEY'' = None" by (simp add: no_env_def)
  ultimately show ?thesis using demo_now_valid by (simp add: isoformat_demo_now)
qed

section \<open>Templates that carry stored text\<close>

lemma first_delimiter_none: "123 \<notin> set s \<Longrightarrow> first_delimiter s = None"
  by (induction s rule: first_delimiter.induct) auto

lemma first_delimiter_append:
  "first_delimiter p = None \<Longrightarrow> p = [] \<or> last p \<noteq> 123 \<Longrightarrow>
   first_delimiter (p @ q) = first_delimiter q"
proof (induction p)
  case Nil
  then show ?case by simp
next
  case (Cons a p)
  show ?case
  proof (cases "p = []")
    case True
    with Cons.prems show ?thesis by (cases q) auto
  next
    case False
    then obtain b cs where p: "p = b # cs" by (cases p) auto
    with Cons.prems have "first_delimiter p = None" and "p = [] \<or> last p \<noteq> 123"
      by (auto split: if_splits)
    with Cons.IH have "first_delimiter (p @ q) = first_delimiter q" by blast
    with Cons.prems p show ?thesis by (auto split: if_splits)
  qed
qed

lemma no_comment_end: "125 \<notin> set s \<Longrightarrow> \<not> sublist [35, 125] s"
  by (auto simp: sublist_def)

lemma plain_text: 
  "123 \<notin> set s \<Longrightarrow> 13 \<notin> set s \<Longrightarrow> s = [] \<or> last s \<noteq> 10 \<Longrightarrow> jinja_plain s"
  by (simp add: jinja_plain_def first_delimiter_none)

lemma render_plain: "jinja_plain src \<Longrightarrow> render_template_string l src = Inr src"
  by (simp add: render_template_string_def)

lemma valid_ticket_page_0_chars:
  "123 \<notin> set valid_ticket_page_0" "13 \<notin> set valid_ticket_page_0"
  "valid_ticket_page_0 \<noteq> []" "last valid_ticket_page_0 = 32"
  by (simp_all add: valid_ticket_page_0_def u_def)

lemma valid_ticket_page_1_chars:
  "123 \<notin> set valid_ticket_page_1" "13 \<notin> set valid_ticket_page_1"
  "125 \<notin> set valid_ticket_page_1"
  by (simp_all add: valid_ticket_page_1_def u_def)

lemma valid_ticket_page_2_chars:
  "123 \<notin> set valid_ticket_page_2" "13 \<notin> set valid_ticket_page_2"
  "125 \<notin> set valid_ticket_page_2"
  by (simp_all add: valid_ticket_page_2_def u_def)

lemma valid_ticket_page_3_chars:
  "123 \<notin> set valid_ticket_page_3" "13 \<notin> set valid_ticket_page_3"
  "125 \<notin> set valid_ticket_page_3" "valid_ticket_page_3 \<noteq> []" "last valid_ticket_page_3 = 32"
  by (simp_all add: valid_ticket_page_3_def u_def)

lemma already_used_page_0_chars:
  "123 \<notin> set already_used_page_0" "13 \<notin> set already_used_page_0"
  "already_used_page_0 \<noteq> []" "last already_used_page_0 = 32"
  by (simp_all add: already_used_page_0_def u_def)

lemma already_used_page_1_chars:
  "123 \<notin> set already_used_page_1" "13 \<notin> set already_used_page_1"
  "125 \<notin> set already_used_page_1"
  by (simp_all add: already_used_page_1_def u_def)

lemma already_used_page_2_chars:
  "123 \<notin> set already_used_page_2" "13 \<notin> set already_used_page_2"
  "125 \<notin> set already_used_page_2"
  by (simp_all add: already_used_page_2_def u_def)

lemma already_used_page_3_chars:
  "123 \<notin> set already_used_page_3" "13 \<notin> set already_used_page_3"
  "125 \<notin> set already_used_page_3" "already_used_page_3 \<noteq> []" "last already_used_page_3 = 32"
  by (simp_all add: already_used_page_3_def u_def)

lemma valid_ticket_page_text: "sublist (u ''Valid Ticket'') valid_ticket_page_0"
  by (simp add: valid_ticket_page_0_def u_def sublist_code)

lemma already_used_page_text: "sublist (u ''Already Used'') already_used_page_0"
  by (simp add: already_used_page_0_def u_def sublist_code)

lemma validation_error_page_texts:
  "sublist (u ''Validation Error'') validation_error_page"
  "\<not> sublist (u ''Valid Ticket'') validation_error_page"
  "\<not> sublist (u ''Already Used'') validation_error_page"
  by (simp_all add: validation_error_page_def u_def sublist_code)

text \<open>A page whose name opens a comment that nothing closes is rejected.\<close>

lemma comment_rejected:
  assumes "123 \<notin> set p" and "p \<noteq> []" and "last p \<noteq> 123" and "125 \<notin> set rest"
  shows "render_template_string l (p @ comment_name @ rest) = Inl TemplateSyntaxError"
proof -
  have "first_delimiter (p @ comment_name @ rest) = first_delimiter (comment_name @ rest)"
    using assms by (intro first_delimiter_append first_delimiter_none) simp_all
  then have fd: "first_delimiter (p @ comment_name @ rest) = Some (35, rest)"
    by (simp add: comment_name_def)
  then have "\<not> jinja_plain (p @ comment_name @ rest)"
    by (simp add: jinja_plain_def)
  moreover have "unclosed_comment (p @ comment_name @ rest)"
    using fd assms(4) by (simp add: unclosed_comment_def no_comment_end)
  ultimately show ?thesis by (simp add: render_template_string_def)
qed

lemma abc_chars: "125 \<notin> set (u ''a@b.c'')"
  by (simp add: u_def)

lemma strftime_demo_chars: "125 \<notin> set (strftime_ymd_hms demo_now)"
  by (simp add: strftime_demo_now u_def)

lemma isoformat_demo_chars: "125 \<notin> set (isoformat demo_now)"
  by (simp add: isoformat_demo_now u_def)

lemma comment_valid_page_rejected:
  "render_template_string l
     (valid_ticket_page comment_name (u ''a@b.c'') (strftime_ymd_hms demo_now)) =
   Inl TemplateSyntaxError"
  unfolding valid_ticket_page_def
  by (rule comment_rejected)
    (simp_all add: valid_ticket_page_0_chars valid_ticket_page_1_chars valid_ticket_page_2_chars
      valid_ticket_page_3_chars abc_chars strftime_demo_chars)

lemma comment_used_page_rejected:
  "render_template_string l
     (already_used_page comment_name (u ''a@b.c'') (isoformat demo_now)) =
   Inl TemplateSyntaxError"
  unfolding already_used_page_def
  by (rule comment_rejected)
    (simp_all add: already_used_page_0_chars already_used_page_1_chars already_used_page_2_chars
      already_used_page_3_chars abc_chars isoformat_demo_chars)

lemma comment_doc_fields:
  "comment_doc ''scanned'' = Some (FBool False)"
  "comment_doc ''name'' = Some (FStr comment_name)"
  "comment_doc ''email'' = Some (FStr (u ''a@b.c''))"
  by (simp_all add: comment_doc_def ticket_data_scanned)

lemma register_comment_name:
  "register demo_lib mail_env (Some empty_store) (Inr comment_body) 0 demo_now =
     (\<lparr>status = 201,
       body = Json (JObj [(u ''message'',
                 JStr (u ''Registration successful! Check your email for the QR code.'')),
               (u ''ticket_id'', JStr comment_id)])\<rparr>, Some comment_store)"
proof -
  have n: "get_stripped comment_body (u ''name'') = Inr comment_name"
    by (simp add: comment_body_def get_stripped_string strip_comment_name)
  have m: "get_stripped comment_body (u ''email'') = Inr (u ''a@b.c'')"
    using name_key_neq_email_key
    by (simp add: comment_body_def get_stripped_string strip_abc)
  have n0: "comment_name \<noteq> []" by (simp add: comment_name_def)
  have m0: "u ''a@b.c'' \<noteq> []" by (simp add: u_def)
  have on: "online empty_store" by (simp add: empty_store_def)
  show ?thesis
    using send_demo [OF n0]
    by (simp add: register_fields_present [OF n n0 m m0] qr_demo store_ticket_online [OF on]
        jsonify_def comment_store_def comment_doc_def comment_id_def)
qed

text \<open>
  C2. The claim fails on a ticket whose name is \<^verbatim>\<open>{#\<close>. The registration of that name
  is accepted and the ticket stored, not scanned. The first \<^verbatim>\<open>GET /validate/<id>\<close> marks
  the ticket as scanned, and then the page, which the f-string has built around the name,
  is compiled as a template and rejected: the answer is 500 with the "Validation Error"
  page, not 200 with "Valid Ticket".
\<close>

theorem validate_fresh_ticket_comment_name:
  "register demo_lib mail_env (Some empty_store) (Inr comment_body) 0 demo_now =
     (\<lparr>status = 201,
       body = Json (JObj [(u ''message'',
                 JStr (u ''Registration successful! Check your email for the QR code.'')),
               (u ''ticket_id'', JStr comment_id)])\<rparr>, Some comment_store)
   \<and> tickets comment_store comment_id = Some comment_doc
   \<and> comment_doc ''scanned'' = Some (FBool False)
   \<and> validate_ticket l (Some comment_store) comment_id demo_now demo_now =
       (Inr \<lparr>status = 500, body = Html validation_error_page\<rparr>, Some scanned_store)
   \<and> \<not> sublist (u ''Valid Ticket'') validation_error_page"
proof -
  have "validate_ticket l (Some comment_store) comment_id demo_now demo_now =
       (Inr \<lparr>status = 500, body = Html validation_error_page\<rparr>, Some scanned_store)"
    by (simp add: validate_ticket_def validate_ticket_try_def document_get_def
        document_update_def comment_store_def empty_store_def field_get_def comment_doc_fields
        respond_def comment_valid_page_rejected scanned_store_def
        render_plain [OF validation_error_page_plain])
  then show ?thesis
    using register_comment_name validation_error_page_texts comment_doc_fields
    by (simp add: comment_store_def)
qed

text \<open>
  C3. The claim fails on the same ticket once it is scanned: the "Already Used" page is
  built around the name \<^verbatim>\<open>{#\<close> and rejected as a template, and the answer is 500 with the
  "Validation Error" page, not 200 with "Already Used". The store is not written.
\<close>

theorem validate_used_ticket_comment_name:
  "(\<exists>doc. tickets scanned_store comment_id = Some doc
       \<and> doc ''scanned'' = Some (FBool True)
       \<and> doc ''scanned_at'' = Some (FTime demo_now)
       \<and> doc ''name'' = Some (FStr comment_name))
   \<and> validate_ticket (demo_lib\<lparr>jinja := j\<rparr>) (Some scanned_store) comment_id demo_now demo_now =
       (Inr \<lparr>status = 500, body = Html validation_error_page\<rparr>, Some scanned_store)
   \<and> \<not> sublist (u ''Already Used'') validation_error_page"
proof -
  define l where "l = demo_lib\<lparr>jinja := j\<rparr>"
  have st: "str_timestamp l = isoformat" by (simp add: l_def demo_lib_def)
  have "validate_ticket l (Some scanned_store) comment_id demo_now demo_now =
       (Inr \<lparr>status = 500, body = Html validation_error_page\<rparr>, Some scanned_store)"
    by (simp add: validate_ticket_def validate_ticket_try_def document_get_def
        scanned_store_def comment_store_def empty_store_def field_get_def comment_doc_fields
        map_add_def st respond_def comment_used_page_rejected
        render_plain [OF validation_error_page_plain])
  then have "validate_ticket (demo_lib\<lparr>jinja := j\<rparr>) (Some scanned_store) comment_id
        demo_now demo_now =
       (Inr \<lparr>status = 500, body = Html validation_error_page\<rparr>, Some scanned_store)"
    by (simp add: l_def)
  then show ?thesis
    using validation_error_page_texts comment_doc_fields
    by (simp add: scanned_store_def comment_store_def map_add_def)
qed

section \<open>Tickets whose text is plain\<close>

lemma zero_pad_chars: "set (zero_pad w (decimal n)) \<subseteq> {48..57}"
  using decimal_digits [of n] by (auto simp: zero_pad_def)

lemma strftime_template_free: "template_free (strftime_ymd_hms d)"
  using zero_pad_chars [of 4 "year d"] zero_pad_chars [of 2 "month d"]
    zero_pad_chars [of 2 "day d"] zero_pad_chars [of 2 "hour d"]
    zero_pad_chars [of 2 "minute d"] zero_pad_chars [of 2 "second d"]
  by (auto simp: template_free_def strftime_ymd_hms_def u_def)

lemma valid_ticket_page_plain:
  assumes "template_free name" and "template_free email"
  shows "jinja_plain (valid_ticket_page name email (strftime_ymd_hms d))"
  using assms strftime_template_free [of d]
  by (intro plain_text)
    (simp_all add: valid_ticket_page_def template_free_def valid_ticket_page_0_chars
      valid_ticket_page_1_chars valid_ticket_page_2_chars valid_ticket_page_3_chars)

lemma already_used_page_plain:
  assumes "template_free name" and "template_free email" and "template_free scanned_at"
  shows "jinja_plain (already_used_page name email scanned_at)"
  using assms
  by (intro plain_text)
    (simp_all add: already_used_page_def template_free_def already_used_page_0_chars
      already_used_page_1_chars already_used_page_2_chars already_used_page_3_chars)

lemma sublist_after: "sublist x ys \<Longrightarrow> sublist x (a @ ys)"
  by (metis append.assoc sublist_def)

lemma sublist_before: "sublist x ys \<Longrightarrow> sublist x (ys @ b)"
  by (metis append.assoc sublist_def)

lemma sublist_at3: "sublist x (a @ b @ c @ x @ d)"
  by (intro sublist_after [of x _ a] sublist_after [of x _ b] sublist_after [of x _ c])
    (rule sublist_append_rightI)

lemma sublist_at5: "sublist x (a @ b @ c @ d @ e @ x @ f)"
  by (intro sublist_after [of x _ a] sublist_after [of x _ b] sublist_after [of x _ c]
      sublist_after [of x _ d] sublist_after [of x _ e])
    (rule sublist_append_rightI)

lemma valid_ticket_page_shows:
  "sublist (u ''Valid Ticket'') (valid_ticket_page name email t)
   \<and> sublist name (valid_ticket_page name email t)
   \<and> sublist email (valid_ticket_page name email t)
   \<and> sublist t (valid_ticket_page name email t)"
  unfolding valid_ticket_page_def
  using sublist_before [OF valid_ticket_page_text] sublist_at3 sublist_at5
  by blast

lemma already_used_page_shows:
  "sublist (u ''Already Used'') (already_used_page name email t)
   \<and> sublist name (already_used_page name email t)
   \<and> sublist email (already_used_page name email t)
   \<and> sublist t (already_used_page name email t)"
  unfolding already_used_page_def
  using sublist_before [OF already_used_page_text] sublist_at3 sublist_at5
  by blast

text \<open>
  A ticket that is not scanned, with a name and an email free of braces and carriage
  returns: the answer is 200 with the "Valid Ticket" page, which shows the name, the
  email and the time of the validation; the ticket is then scanned, and \<^verbatim>\<open>scanned_at\<close> is
  the reading \<open>now1\<close> of the clock, taken while the request is handled.
\<close>

lemma validate_fresh_ticket_plain:
  assumes "online fs" and "tickets fs ticket_id = Some doc"
    and "doc ''scanned'' = Some (FBool False)"
    and "doc ''name'' = Some (FStr name)" and "template_free name"
    and "doc ''email'' = Some (FStr email)" and "template_free email"
    and "dt_le t_req now1"
  shows "\<exists>fs' doc' page.
     validate_ticket l (Some fs) ticket_id now1 now2 =
       (Inr \<lparr>status = 200, body = Html page\<rparr>, Some fs')
     \<and> page = valid_ticket_page name email (strftime_ymd_hms now2)
     \<and> sublist (u ''Valid Ticket'') page \<and> sublist name page \<and> sublist email page
     \<and> sublist (strftime_ymd_hms now2) page
     \<and> tickets fs' ticket_id = Some doc'
     \<and> doc' ''scanned'' = Some (FBool True)
     \<and> doc' ''scanned_at'' = Some (FTime now1) \<and> dt_le t_req now1
     \<and> doc' ''name'' = doc ''name'' \<and> doc' ''email'' = doc ''email''
     \<and> (\<forall>other. other \<noteq> ticket_id \<longrightarrow> tickets fs' other = tickets fs other)"
  using assms valid_ticket_page_shows [of name email "strftime_ymd_hms now2"]
  by (simp add: validate_ticket_def validate_ticket_try_def document_get_def
      document_update_def field_get_def respond_plain valid_ticket_page_plain map_add_def)

text \<open>
  A scanned ticket whose name, email and time of scanning print free of braces and
  carriage returns: the answer is 200 with the "Already Used" page, which shows them, and
  the store is left as it was.
\<close>

lemma validate_used_ticket_plain:
  assumes "online fs" and "tickets fs ticket_id = Some doc"
    and "doc ''scanned'' = Some (FBool True)"
    and "doc ''name'' = Some (FStr name)" and "template_free name"
    and "doc ''email'' = Some (FStr email)" and "template_free email"
    and "doc ''scanned_at'' = Some (FTime t)" and "template_free (str_timestamp l t)"
  shows "\<exists>page.
     validate_ticket l (Some fs) ticket_id now1 now2 =
       (Inr \<lparr>status = 200, body = Html page\<rparr>, Some fs)
     \<and> page = already_used_page name email (str_timestamp l t)
     \<and> sublist (u ''Already Used'') page \<and> sublist name page \<and> sublist email page
     \<and> sublist (str_timestamp l t) page"
  using assms already_used_page_shows [of name email "str_timestamp l t"]
  by (simp add: validate_ticket_def validate_ticket_try_def document_get_def
      field_get_def respond_plain already_used_page_plain)

end
